theory Spec2Isabelle
  imports Main "HOL-Library.AList"
begin

section \<open>The gSims MJPEG relay: a shallow embedding of its two server variants\<close>

text \<open>
  The repository holds two variants of one relay server.  The \<^emph>\<open>token variant\<close>
  (\<^verbatim>\<open>server.js\<close>) guards its endpoints with signed tokens checked against
  \<^verbatim>\<open>GSIMS_JWT_SECRET\<close> and runs open when that secret is not set.  The \<^emph>\<open>digest
  variant\<close> (the second server file) guards only the ingestion upgrade, with a SHA-256
  digest of \<^verbatim>\<open>SHARED_SECRET:sid\<close>, tracks uploaders, and has an administrative code.
  Both share the frame store \<^verbatim>\<open>latest\<close>, the watcher registry \<^verbatim>\<open>watchers\<close> and
  \<^verbatim>\<open>pushFrame\<close>.

  Handlers are functions from the server state to a response and a new state.  Calls
  that may throw return a sum, \<open>Inl\<close> being the exception.  The libraries the servers
  call (token verification, SHA-256, URL parsing) are inputs of the model.  Rate
  limiting and the other middleware of the token variant are left out.
\<close>

subsection \<open>JavaScript values\<close>

type_synonym sid = string
type_synonym frame = string
type_synonym res_id = nat
type_synonym ws_id = nat

datatype js_error = WriteError | CloseError | TypeError

text \<open>
  A \<^verbatim>\<open>Map\<close> is an association list in insertion order: \<^verbatim>\<open>set\<close> on a key that is
  present replaces the value in place, on a new key it appends; \<^verbatim>\<open>get\<close> is
  \<^const>\<open>map_of\<close>.  A \<^verbatim>\<open>Set\<close> is a list in insertion order without repetition.
\<close>

definition js_map_set :: "('k \<times> 'v) list \<Rightarrow> 'k \<Rightarrow> 'v \<Rightarrow> ('k \<times> 'v) list" where
  "js_map_set m k v = AList.update k v m"

definition js_map_delete :: "('k \<times> 'v) list \<Rightarrow> 'k \<Rightarrow> ('k \<times> 'v) list" where
  "js_map_delete m k = AList.delete k m"

definition js_map_keys :: "('k \<times> 'v) list \<Rightarrow> 'k list" where
  "js_map_keys m = map fst m"

definition js_set_add :: "'a list \<Rightarrow> 'a \<Rightarrow> 'a list" where
  "js_set_add s x = (if x \<in> set s then s else s @ [x])"

definition js_set_delete :: "'a list \<Rightarrow> 'a \<Rightarrow> 'a list" where
  "js_set_delete s x = removeAll x s"

text \<open>\<^verbatim>\<open>String(x || d)\<close> for a string \<open>x\<close>, and for a value that may be \<^verbatim>\<open>null\<close>.\<close>

definition or_default :: "string \<Rightarrow> string \<Rightarrow> string" where
  "or_default x d = (if x = [] then d else x)"

fun opt_or_default :: "string option \<Rightarrow> string \<Rightarrow> string" where
  "opt_or_default None d = d"
| "opt_or_default (Some x) d = or_default x d"

text \<open>The decimal digits of a number, as string concatenation writes them.\<close>

fun dec :: "nat \<Rightarrow> string" where
  "dec n = (if n < 10 then [''0123456789'' ! n] else dec (n div 10) @ [''0123456789'' ! (n mod 10)])"

declare dec.simps [simp del]

subsection \<open>Output channels\<close>

text \<open>
  A watcher is an open HTTP response.  \<open>rc_budget\<close> is the number of further writes
  that succeed before \<^verbatim>\<open>write\<close> throws (\<open>None\<close>: it never throws); \<open>rc_end_throws\<close> says
  whether \<^verbatim>\<open>end\<close> throws.
\<close>

record res_chan =
  rc_status :: "nat option"
  rc_headers :: "(string \<times> string) list"
  rc_out :: "string list"
  rc_ended :: bool
  rc_budget :: "nat option"
  rc_end_throws :: bool

definition res_write :: "res_chan \<Rightarrow> string \<Rightarrow> js_error + res_chan" where
  "res_write c d =
     (case rc_budget c of
        None \<Rightarrow> Inr (c\<lparr>rc_out := rc_out c @ [d]\<rparr>)
      | Some 0 \<Rightarrow> Inl WriteError
      | Some (Suc n) \<Rightarrow> Inr (c\<lparr>rc_out := rc_out c @ [d], rc_budget := Some n\<rparr>))"

definition res_end :: "res_chan \<Rightarrow> js_error + res_chan" where
  "res_end c = (if rc_end_throws c then Inl WriteError else Inr (c\<lparr>rc_ended := True\<rparr>))"

text \<open>\<^verbatim>\<open>try { res.end(); } catch (_) {}\<close>\<close>

definition try_end :: "res_chan \<Rightarrow> res_chan" where
  "try_end c = (case res_end c of Inl _ \<Rightarrow> c | Inr c' \<Rightarrow> c')"

definition mjpeg_head :: "frame \<Rightarrow> string" where
  "mjpeg_head buf =
     ''--gsims'' @ [CHR 0x0D, CHR 0x0A] @ ''Content-Type: image/jpeg'' @ [CHR 0x0D, CHR 0x0A]
       @ ''Content-Length: '' @ dec (length buf) @ [CHR 0x0D, CHR 0x0A, CHR 0x0D, CHR 0x0A]"

definition crlf :: string where
  "crlf = [CHR 0x0D, CHR 0x0A]"

text \<open>
  The body of the \<^verbatim>\<open>try\<close> block of a delivery: three writes.  The result is the
  channel as the block left it, and the exception if one was thrown; what was written
  before the exception stays written.
\<close>

definition write_part :: "res_chan \<Rightarrow> frame \<Rightarrow> res_chan \<times> js_error option" where
  "write_part c buf =
     (case res_write c (mjpeg_head buf) of
        Inl e \<Rightarrow> (c, Some e)
      | Inr c1 \<Rightarrow>
          (case res_write c1 buf of
             Inl e \<Rightarrow> (c1, Some e)
           | Inr c2 \<Rightarrow>
               (case res_write c2 crlf of
                  Inl e \<Rightarrow> (c2, Some e)
                | Inr c3 \<Rightarrow> (c3, None))))"

text \<open>A channel takes a whole part when three more writes succeed.\<close>

definition takes_part :: "res_chan \<Rightarrow> bool" where
  "takes_part c = (case rc_budget c of None \<Rightarrow> True | Some n \<Rightarrow> 3 \<le> n)"

subsection \<open>Ingestion channels\<close>

datatype ready_state = OPEN | CLOSING | CLOSED

record ws_chan =
  ws_ready :: ready_state
  ws_close_args :: "(nat \<times> string) option"
  ws_close_throws :: bool

text \<open>
  \<^verbatim>\<open>ws.close(code, reason)\<close>: an open channel starts closing with that code, a channel
  that is closing or closed stays as it is.  \<open>ws_close_throws\<close> is the case the
  caller's \<^verbatim>\<open>try\<close> guards against.
\<close>

definition ws_close :: "ws_chan \<Rightarrow> nat \<Rightarrow> string \<Rightarrow> js_error + ws_chan" where
  "ws_close c code reason =
     (if ws_close_throws c then Inl CloseError
      else Inr (case ws_ready c of
                  OPEN \<Rightarrow> c\<lparr>ws_ready := CLOSING, ws_close_args := Some (code, reason)\<rparr>
                | CLOSING \<Rightarrow> c
                | CLOSED \<Rightarrow> c))"

subsection \<open>The server state and \<^verbatim>\<open>pushFrame\<close>\<close>

text \<open>
  \<open>latest\<close>, \<open>watchers\<close> and \<open>uploaders\<close> are the three global maps (the token variant
  has no \<open>uploaders\<close>; there it stays empty).  \<open>chans\<close> and \<open>socks\<close> are the stores of
  the response and WebSocket objects the maps refer to.  The \<^verbatim>\<open>Set\<close> of a session is
  created once and never replaced or removed from \<open>watchers\<close>, so the set a closure
  holds is the set the map holds, and the model keeps it as the map's value.
\<close>

record relay_state =
  latest :: "(sid \<times> frame) list"
  watchers :: "(sid \<times> res_id list) list"
  uploaders :: "(sid \<times> ws_id list) list"
  chans :: "res_id \<Rightarrow> res_chan"
  socks :: "ws_id \<Rightarrow> ws_chan"

text \<open>
  The loop \<^verbatim>\<open>for (const res of set)\<close> of \<^verbatim>\<open>pushFrame\<close>.  The first argument is what
  is left to visit; deleting the element being visited does not disturb the visit of
  the later ones.
\<close>

fun deliver_all ::
  "res_id list \<Rightarrow> frame \<Rightarrow> res_id list \<times> (res_id \<Rightarrow> res_chan) \<Rightarrow> res_id list \<times> (res_id \<Rightarrow> res_chan)"
where
  "deliver_all [] buf (s, ch) = (s, ch)"
| "deliver_all (r # rs) buf (s, ch) =
     (case write_part (ch r) buf of
        (c, None) \<Rightarrow> deliver_all rs buf (s, ch(r := c))
      | (c, Some e) \<Rightarrow> deliver_all rs buf (js_set_delete s r, ch(r := try_end c)))"

definition pushFrame :: "relay_state \<Rightarrow> sid \<Rightarrow> frame \<Rightarrow> js_error + relay_state" where
  "pushFrame st sid buf =
     (let st1 = st\<lparr>latest := js_map_set (latest st) sid buf\<rparr> in
      case map_of (watchers st1) sid of
        None \<Rightarrow> Inr st1
      | Some s \<Rightarrow>
          (case deliver_all s buf (s, chans st1) of
             (s', ch') \<Rightarrow> Inr (st1\<lparr>watchers := js_map_set (watchers st1) sid s', chans := ch'\<rparr>)))"

definition watchers_of :: "relay_state \<Rightarrow> sid \<Rightarrow> res_id list" where
  "watchers_of st sid = (case map_of (watchers st) sid of None \<Rightarrow> [] | Some s \<Rightarrow> s)"

definition after_part :: "res_chan \<Rightarrow> frame \<Rightarrow> res_chan" where
  "after_part c buf = (case write_part c buf of (c', None) \<Rightarrow> c' | (c', Some e) \<Rightarrow> try_end c')"

subsection \<open>Requests and responses\<close>

text \<open>
  \<open>JsonStatus mode streams watchers uploaders\<close> is the document of \<^verbatim>\<open>/status\<close>
  (without the digest variant's time stamp); the order of the pairs of an object has
  no meaning.
\<close>

datatype body =
    NoBody
  | Raw string
  | JsonError string
  | JsonOk
  | JsonStatus "string option" "sid list" "(sid \<times> nat) list" "(sid \<times> nat) list option"

record http_response =
  rs_status :: nat
  rs_headers :: "(string \<times> string) list"
  rs_body :: body

text \<open>
  What the handlers read of a request: the route parameter \<^verbatim>\<open>:sid\<close>, the
  \<^verbatim>\<open>Authorization\<close> header, the query parameter \<^verbatim>\<open>t\<close> when it is a string, and the
  administrative code in the query and in the header \<^verbatim>\<open>x-gsims-code\<close>.
\<close>

record http_req =
  rq_sid :: string
  rq_authorization :: "string option"
  rq_query_t :: "string option"
  rq_query_code :: "string option"
  rq_header_code :: "string option"

definition noCache :: "(string \<times> string) list" where
  "noCache =
     [(''Cache-Control'', ''no-cache, no-store, must-revalidate''), (''Pragma'', ''no-cache''),
      (''Expires'', ''0''), (''X-Content-Type-Options'', ''nosniff''),
      (''Referrer-Policy'', ''no-referrer'')]"

definition corsNoCache :: "(string \<times> string) list" where
  "corsNoCache =
     [(''Access-Control-Allow-Origin'', ''*''),
      (''Cache-Control'', ''no-cache, no-store, must-revalidate''), (''Pragma'', ''no-cache''),
      (''Expires'', ''0''), (''X-Content-Type-Options'', ''nosniff'')]"

subsection \<open>The handlers both variants share\<close>

text \<open>\<^verbatim>\<open>GET /jpg/:sid\<close>; a \<^verbatim>\<open>Buffer\<close> is truthy even when it is empty.\<close>

definition jpg_handler :: "(string \<times> string) list \<Rightarrow> relay_state \<Rightarrow> string \<Rightarrow> http_response" where
  "jpg_handler hdrs st psid =
     (let sid = or_default psid ''0'' in
      case map_of (latest st) sid of
        None \<Rightarrow> \<lparr>rs_status = 204, rs_headers = hdrs, rs_body = NoBody\<rparr>
      | Some buf \<Rightarrow>
          \<lparr>rs_status = 200,
           rs_headers = hdrs @ [(''Content-Type'', ''image/jpeg''), (''Content-Length'', dec (length buf))],
           rs_body = Raw buf\<rparr>)"

text \<open>
  \<^verbatim>\<open>GET /mjpg/:sid\<close>: the response \<open>res\<close> is registered and stays open; the stored
  frame, if any, is written at once, and an exception of that write is dropped.
\<close>

definition mjpg_handler :: "(string \<times> string) list \<Rightarrow> relay_state \<Rightarrow> string \<Rightarrow> res_id \<Rightarrow> relay_state" where
  "mjpg_handler hdrs st psid res =
     (let sid = or_default psid ''0'';
          c0 = (chans st res)
                 \<lparr>rc_status := Some 200,
                  rc_headers := rc_headers (chans st res) @ hdrs @
                    [(''Connection'', ''keep-alive''),
                     (''Content-Type'', ''multipart/x-mixed-replace; boundary=gsims'')]\<rparr>;
          w1 = (if map_of (watchers st) sid = None then js_map_set (watchers st) sid []
                else watchers st);
          w2 = (case map_of w1 sid of
                  None \<Rightarrow> w1
                | Some s \<Rightarrow> js_map_set w1 sid (js_set_add s res));
          c1 = (case map_of (latest st) sid of
                  None \<Rightarrow> c0
                | Some buf \<Rightarrow> fst (write_part c0 buf))
      in st\<lparr>watchers := w2, chans := (chans st)(res := c1)\<rparr>)"

text \<open>
  The listeners \<^verbatim>\<open>req.on('close', () => set.delete(res))\<close> and
  \<^verbatim>\<open>res.on('error', () => set.delete(res))\<close>; \<open>sid\<close> is the key of the set the
  closure holds.
\<close>

definition watcher_gone :: "relay_state \<Rightarrow> sid \<Rightarrow> res_id \<Rightarrow> relay_state" where
  "watcher_gone st sid res =
     (case map_of (watchers st) sid of
        None \<Rightarrow> st
      | Some s \<Rightarrow> st\<lparr>watchers := js_map_set (watchers st) sid (js_set_delete s res)\<rparr>)"

definition counts :: "('k \<times> 'a list) list \<Rightarrow> ('k \<times> nat) list" where
  "counts m = map (\<lambda>(k, v). (k, length v)) m"

subsection \<open>The token variant: access gate\<close>

text \<open>
  \<open>JWT_SECRET\<close> and \<open>API_KEY\<close> are \<^verbatim>\<open>process.env.X || null\<close>.  A secret is in force
  when it is truthy.
\<close>

record token_cfg =
  JWT_SECRET :: "string option"
  API_KEY :: "string option"

fun truthy :: "string option \<Rightarrow> bool" where
  "truthy None = False"
| "truthy (Some x) = (x \<noteq> [])"

text \<open>
  The payload of a verified token, as far as the checks read it: a field is \<open>None\<close>
  when the payload does not have it as a string.  \<open>verify tok secret\<close> stands for
  \<^verbatim>\<open>jwt.verify(tok, secret, { algorithms: ['HS256'] })\<close> at the time of the request:
  \<open>None\<close> when it throws (bad signature, expired, malformed).
\<close>

record jwt_payload =
  p_sid :: "string option"
  p_scope :: "string option"

type_synonym jwt_verify = "string \<Rightarrow> string \<Rightarrow> jwt_payload option"

definition starts_with :: "string \<Rightarrow> string \<Rightarrow> bool" where
  "starts_with p x = (take (length p) x = p)"

text \<open>
  \<^verbatim>\<open>trim\<close> is applied to the value of a header only, which Node decodes as latin1, one
  character per byte: the white space and line terminators of JavaScript below 256 are
  the six of ASCII and the no-break space.
\<close>

definition is_space :: "char \<Rightarrow> bool" where
  "is_space c =
     (c \<in> set [CHR 0x09, CHR 0x0A, CHR 0x0B, CHR 0x0C, CHR 0x0D, CHR 0x20, CHR 0xA0])"

definition trim :: "string \<Rightarrow> string" where
  "trim x = rev (dropWhile is_space (rev (dropWhile is_space x)))"

definition bearerOrQueryToken :: "http_req \<Rightarrow> string option" where
  "bearerOrQueryToken req =
     (case rq_authorization req of
        None \<Rightarrow> rq_query_t req
      | Some h \<Rightarrow>
          if h \<noteq> [] \<and> starts_with ''Bearer '' h then Some (trim (drop 7 h))
          else rq_query_t req)"

datatype guard = Next | Reject nat string

definition verifyTokenOrOpen ::
  "token_cfg \<Rightarrow> jwt_verify \<Rightarrow> (jwt_payload \<Rightarrow> http_req \<Rightarrow> bool) \<Rightarrow> http_req \<Rightarrow> guard"
where
  "verifyTokenOrOpen cfg verify scopeCheck req =
     (case JWT_SECRET cfg of
        None \<Rightarrow> Next
      | Some secret \<Rightarrow>
          if secret = [] then Next
          else
            (case bearerOrQueryToken req of
               None \<Rightarrow> Reject 401 ''missing_token''
             | Some tok \<Rightarrow>
                 if tok = [] then Reject 401 ''missing_token''
                 else
                   (case verify tok secret of
                      None \<Rightarrow> Reject 401 ''invalid_token''
                    | Some payload \<Rightarrow>
                        if \<not> scopeCheck payload req then Reject 403 ''forbidden''
                        else Next)))"

definition viewGuard :: "token_cfg \<Rightarrow> jwt_verify \<Rightarrow> http_req \<Rightarrow> guard" where
  "viewGuard cfg verify =
     verifyTokenOrOpen cfg verify
       (\<lambda>p req. p_sid p = Some (or_default (rq_sid req) []) \<and> p_scope p = Some ''view'')"

definition adminGuard :: "token_cfg \<Rightarrow> jwt_verify \<Rightarrow> http_req \<Rightarrow> guard" where
  "adminGuard cfg verify = verifyTokenOrOpen cfg verify (\<lambda>p req. p_scope p = Some ''admin'')"

definition reject_response :: "nat \<Rightarrow> string \<Rightarrow> http_response" where
  "reject_response code err = \<lparr>rs_status = code, rs_headers = [], rs_body = JsonError err\<rparr>"

subsection \<open>The token variant: routes\<close>

definition t_get_jpg :: "token_cfg \<Rightarrow> jwt_verify \<Rightarrow> relay_state \<Rightarrow> http_req \<Rightarrow> http_response" where
  "t_get_jpg cfg verify st req =
     (case viewGuard cfg verify req of
        Reject code err \<Rightarrow> reject_response code err
      | Next \<Rightarrow> jpg_handler noCache st (rq_sid req))"

text \<open>The response of \<^verbatim>\<open>/mjpg\<close> is \<open>None\<close> when the request is held open as a watcher.\<close>

definition t_get_mjpg ::
  "token_cfg \<Rightarrow> jwt_verify \<Rightarrow> relay_state \<Rightarrow> http_req \<Rightarrow> res_id \<Rightarrow> http_response option \<times> relay_state"
where
  "t_get_mjpg cfg verify st req res =
     (case viewGuard cfg verify req of
        Reject code err \<Rightarrow> (Some (reject_response code err), st)
      | Next \<Rightarrow> (None, mjpg_handler noCache st (rq_sid req) res))"

definition t_get_status :: "token_cfg \<Rightarrow> jwt_verify \<Rightarrow> relay_state \<Rightarrow> http_req \<Rightarrow> http_response" where
  "t_get_status cfg verify st req =
     (case adminGuard cfg verify req of
        Reject code err \<Rightarrow> reject_response code err
      | Next \<Rightarrow>
          \<lparr>rs_status = 200, rs_headers = noCache,
           rs_body = JsonStatus (Some (if truthy (JWT_SECRET cfg) then ''secure'' else ''open''))
                       (js_map_keys (latest st)) (counts (watchers st)) None\<rparr>)"

subsection \<open>Upgrade requests\<close>

text \<open>
  The request target as \<^verbatim>\<open>new URL(req.url, 'http://x')\<close> parses it, \<open>None\<close> when that
  throws; \<^verbatim>\<open>searchParams.get\<close> returns the first value of a name.  The handler either
  destroys the socket, writing nothing, or hands it to \<^verbatim>\<open>handleUpgrade\<close> with the
  session of the new channel.
\<close>

record parsed_url =
  pathname :: string
  searchParams :: "(string \<times> string) list"

datatype upgrade_result = Destroyed | Upgraded sid

definition t_upgrade :: "token_cfg \<Rightarrow> jwt_verify \<Rightarrow> parsed_url option \<Rightarrow> upgrade_result" where
  "t_upgrade cfg verify url =
     (case url of
        None \<Rightarrow> Destroyed
      | Some u \<Rightarrow>
          if pathname u \<noteq> ''/ws'' then Destroyed
          else
            (let sid = opt_or_default (map_of (searchParams u) ''sid'') ''0'' in
             case JWT_SECRET cfg of
               None \<Rightarrow> Upgraded sid
             | Some secret \<Rightarrow>
                 if secret = [] then Upgraded sid
                 else
                   (let tok = opt_or_default (map_of (searchParams u) ''t'') [] in
                    if tok = [] then Destroyed
                    else
                      (case verify tok secret of
                         None \<Rightarrow> Destroyed
                       | Some p \<Rightarrow>
                           if \<not> (p_sid p = Some sid \<and> p_scope p = Some ''upload'') then Destroyed
                           else Upgraded sid))))"

subsection \<open>The digest variant\<close>

text \<open>
  \<open>SHARED_SECRET\<close> always has a value (a default when the environment gives none), and
  so has \<open>ADMIN_CODE\<close> (random when the environment gives none).  \<open>sha\<close> stands for the
  SHA-256 digest in hexadecimal.
\<close>

record digest_cfg =
  SHARED_SECRET :: string
  ADMIN_CODE :: string

definition tokenForSidHex :: "(string \<Rightarrow> string) \<Rightarrow> digest_cfg \<Rightarrow> sid \<Rightarrow> string" where
  "tokenForSidHex sha cfg sid = sha (SHARED_SECRET cfg @ '':'' @ sid)"

definition safeEqual :: "string \<Rightarrow> string \<Rightarrow> bool" where
  "safeEqual a b = (if length a \<noteq> length b then False else a = b)"

definition isAdmin :: "digest_cfg \<Rightarrow> http_req \<Rightarrow> bool" where
  "isAdmin cfg req =
     (let codeQ = opt_or_default (rq_query_code req) [];
          codeH = opt_or_default (rq_header_code req) []
      in codeQ = ADMIN_CODE cfg \<or> codeH = ADMIN_CODE cfg)"

definition d_get_jpg :: "relay_state \<Rightarrow> http_req \<Rightarrow> http_response" where
  "d_get_jpg st req = jpg_handler corsNoCache st (rq_sid req)"

definition d_get_mjpg :: "relay_state \<Rightarrow> http_req \<Rightarrow> res_id \<Rightarrow> relay_state" where
  "d_get_mjpg st req res = mjpg_handler corsNoCache st (rq_sid req) res"

definition d_get_status :: "digest_cfg \<Rightarrow> relay_state \<Rightarrow> http_req \<Rightarrow> http_response" where
  "d_get_status cfg st req =
     \<lparr>rs_status = 200, rs_headers = corsNoCache,
      rs_body = JsonStatus None (js_map_keys (latest st)) (counts (watchers st))
                  (Some (counts (uploaders st)))\<rparr>"

text \<open>The loop \<^verbatim>\<open>for (const ws of set) { try { ws.close(4000, ...) } catch (_) {} }\<close>.\<close>

fun close_all :: "ws_id list \<Rightarrow> (ws_id \<Rightarrow> ws_chan) \<Rightarrow> (ws_id \<Rightarrow> ws_chan)" where
  "close_all [] so = so"
| "close_all (w # ws) so =
     close_all ws (case ws_close (so w) 4000 ''Admin disconnect'' of
                     Inl _ \<Rightarrow> so
                   | Inr c \<Rightarrow> so(w := c))"

definition d_admin_disconnect :: "digest_cfg \<Rightarrow> relay_state \<Rightarrow> http_req \<Rightarrow> http_response \<times> relay_state" where
  "d_admin_disconnect cfg st req =
     (if \<not> isAdmin cfg req then (\<lparr>rs_status = 404, rs_headers = [], rs_body = Raw ''Not found''\<rparr>, st)
      else
        (let sid = or_default (rq_sid req) [];
             so = (case map_of (uploaders st) sid of
                     None \<Rightarrow> socks st
                   | Some s \<Rightarrow> close_all s (socks st))
         in (\<lparr>rs_status = 200, rs_headers = [], rs_body = JsonOk\<rparr>,
             st\<lparr>socks := so, latest := js_map_delete (latest st) sid\<rparr>)))"

text \<open>The upgrade handler of this variant has no \<^verbatim>\<open>try\<close>: an exception of the parser leaves it.\<close>

definition d_upgrade :: "(string \<Rightarrow> string) \<Rightarrow> digest_cfg \<Rightarrow> parsed_url option \<Rightarrow> js_error + upgrade_result" where
  "d_upgrade sha cfg url =
     (case url of
        None \<Rightarrow> Inl TypeError
      | Some u \<Rightarrow>
          if pathname u \<noteq> ''/ws'' then Inr Destroyed
          else
            (let sid = opt_or_default (map_of (searchParams u) ''sid'') [];
                 token = opt_or_default (map_of (searchParams u) ''token'') []
             in if sid = [] \<or> token = [] \<or> \<not> safeEqual (tokenForSidHex sha cfg sid) token
                then Inr Destroyed
                else Inr (Upgraded sid)))"

text \<open>
  \<^verbatim>\<open>wss.on('connection')\<close> for the channel \<open>ws\<close> whose \<^verbatim>\<open>ws.sid\<close> is \<open>wsid\<close>, and its
  \<^verbatim>\<open>close\<close> listener, whose \<open>sid\<close> is the one the connection computed.
\<close>

definition d_connection :: "relay_state \<Rightarrow> ws_id \<Rightarrow> string \<Rightarrow> relay_state" where
  "d_connection st ws wsid =
     (let sid = or_default wsid ''0'';
          u1 = (if map_of (uploaders st) sid = None then js_map_set (uploaders st) sid []
                else uploaders st);
          u2 = (case map_of u1 sid of
                  None \<Rightarrow> u1
                | Some s \<Rightarrow> js_map_set u1 sid (js_set_add s ws))
      in st\<lparr>uploaders := u2\<rparr>)"

definition d_ws_close :: "relay_state \<Rightarrow> ws_id \<Rightarrow> sid \<Rightarrow> relay_state" where
  "d_ws_close st ws sid =
     (case map_of (uploaders st) sid of
        None \<Rightarrow> st
      | Some s \<Rightarrow>
          (let s' = js_set_delete s ws in
           if length s' = 0 then st\<lparr>uploaders := js_map_delete (uploaders st) sid\<rparr>
           else st\<lparr>uploaders := js_map_set (uploaders st) sid s'\<rparr>))"

subsection \<open>Runs\<close>

text \<open>
  What happens to a server, one event after the other: requests, the two listeners of a
  watcher, and the events of an ingestion channel.  \<open>Connection ws wsid\<close> is the
  \<^verbatim>\<open>connection\<close> event an accepted upgrade emits.  \<open>Message sid buf\<close> is a message on
  a channel whose session is \<open>sid\<close>.  An exception that leaves a handler ends the run.
\<close>

datatype event =
    GetJpg http_req
  | GetMjpg http_req res_id
  | GetStatus http_req
  | WatcherGone sid res_id
  | Connection ws_id string
  | Message sid frame
  | WsClose ws_id sid
  | AdminDisconnect http_req

fun t_step :: "token_cfg \<Rightarrow> jwt_verify \<Rightarrow> relay_state \<Rightarrow> event \<Rightarrow> js_error + relay_state" where
  "t_step cfg verify st (GetJpg req) = Inr st"
| "t_step cfg verify st (GetMjpg req res) = Inr (snd (t_get_mjpg cfg verify st req res))"
| "t_step cfg verify st (GetStatus req) = Inr st"
| "t_step cfg verify st (WatcherGone sid res) = Inr (watcher_gone st sid res)"
| "t_step cfg verify st (Connection ws wsid) = Inr st"
| "t_step cfg verify st (Message sid buf) = pushFrame st sid buf"
| "t_step cfg verify st (WsClose ws sid) = Inr st"
| "t_step cfg verify st (AdminDisconnect req) = Inr st"

fun d_step :: "digest_cfg \<Rightarrow> relay_state \<Rightarrow> event \<Rightarrow> js_error + relay_state" where
  "d_step cfg st (GetJpg req) = Inr st"
| "d_step cfg st (GetMjpg req res) = Inr (d_get_mjpg st req res)"
| "d_step cfg st (GetStatus req) = Inr st"
| "d_step cfg st (WatcherGone sid res) = Inr (watcher_gone st sid res)"
| "d_step cfg st (Connection ws wsid) = Inr (d_connection st ws wsid)"
| "d_step cfg st (Message sid buf) = pushFrame st sid buf"
| "d_step cfg st (WsClose ws sid) = Inr (d_ws_close st ws sid)"
| "d_step cfg st (AdminDisconnect req) = Inr (snd (d_admin_disconnect cfg st req))"

fun run :: "('s \<Rightarrow> 'e \<Rightarrow> js_error + 's) \<Rightarrow> 's \<Rightarrow> 'e list \<Rightarrow> js_error + 's" where
  "run step st [] = Inr st"
| "run step st (e # es) = (case step st e of Inl x \<Rightarrow> Inl x | Inr st' \<Rightarrow> run step st' es)"

definition init_state :: "(res_id \<Rightarrow> res_chan) \<Rightarrow> (ws_id \<Rightarrow> ws_chan) \<Rightarrow> relay_state" where
  "init_state ch so = \<lparr>latest = [], watchers = [], uploaders = [], chans = ch, socks = so\<rparr>"

fun publishes :: "sid \<Rightarrow> event \<Rightarrow> bool" where
  "publishes s (Message sid buf) = (sid = s)"
| "publishes s _ = False"

fun status_streams :: "body \<Rightarrow> sid list" where
  "status_streams (JsonStatus mode streams ws us) = streams"
| "status_streams _ = []"

fun status_uploaders :: "body \<Rightarrow> (sid \<times> nat) list" where
  "status_uploaders (JsonStatus mode streams ws (Some us)) = us"
| "status_uploaders _ = []"

definition uploaders_of :: "relay_state \<Rightarrow> sid \<Rightarrow> ws_id list" where
  "uploaders_of st sid = (case map_of (uploaders st) sid of None \<Rightarrow> [] | Some s \<Rightarrow> s)"

text \<open>\<^verbatim>\<open>try { ws.close(4000, 'Admin disconnect'); } catch (_) {}\<close> on one channel.\<close>

definition try_close :: "ws_chan \<Rightarrow> ws_chan" where
  "try_close c = (case ws_close c 4000 ''Admin disconnect'' of Inl _ \<Rightarrow> c | Inr c' \<Rightarrow> c')"

subsection \<open>Example values\<close>

definition example_chan :: "nat option \<Rightarrow> res_chan" where
  "example_chan b =
     \<lparr>rc_status = None, rc_headers = [], rc_out = [], rc_ended = False, rc_budget = b,
      rc_end_throws = False\<rparr>"

definition example_sock :: ws_chan where
  "example_sock = \<lparr>ws_ready = OPEN, ws_close_args = None, ws_close_throws = False\<rparr>"

definition example_init :: relay_state where
  "example_init = init_state (\<lambda>r. example_chan None) (\<lambda>w. example_sock)"

definition three_watchers :: relay_state where
  "three_watchers =
     \<lparr>latest = [], watchers = [(''7'', [1, 2, 3])], uploaders = [],
      chans = (\<lambda>r. example_chan (if r = 2 then Some 1 else None)),
      socks = (\<lambda>w. example_sock)\<rparr>"

definition two_sessions :: relay_state where
  "two_sessions =
     \<lparr>latest = [(''7'', ''ab''), (''8'', ''cd'')], watchers = [(''7'', [1]), (''8'', [2])],
      uploaders = [(''7'', [4, 5]), (''8'', [6])],
      chans = (\<lambda>r. example_chan None), socks = (\<lambda>w. example_sock)\<rparr>"

definition plain_req :: "string \<Rightarrow> http_req" where
  "plain_req s =
     \<lparr>rq_sid = s, rq_authorization = None, rq_query_t = None, rq_query_code = None,
      rq_header_code = None\<rparr>"

definition token_req :: "string \<Rightarrow> string \<Rightarrow> http_req" where
  "token_req s tok = (plain_req s)\<lparr>rq_query_t := Some tok\<rparr>"

definition code_req :: "string \<Rightarrow> string \<Rightarrow> http_req" where
  "code_req s code = (plain_req s)\<lparr>rq_query_code := Some code\<rparr>"

definition open_cfg :: token_cfg where
  "open_cfg = \<lparr>JWT_SECRET = None, API_KEY = None\<rparr>"

definition secure_cfg :: "string \<Rightarrow> token_cfg" where
  "secure_cfg k = \<lparr>JWT_SECRET = Some k, API_KEY = None\<rparr>"

definition example_digest_cfg :: digest_cfg where
  "example_digest_cfg = \<lparr>SHARED_SECRET = ''devsecret-change-me'', ADMIN_CODE = ''c0de''\<rparr>"

text \<open>
  A verification that accepts one token under one secret: \<open>tok\<close> carries the session
  \<open>s\<close> and the scope \<open>sc\<close> and is signed with \<open>k\<close>.
\<close>

definition one_token :: "string \<Rightarrow> string \<Rightarrow> string \<Rightarrow> string \<Rightarrow> jwt_verify" where
  "one_token tok k s sc =
     (\<lambda>t secret. if t = tok \<and> secret = k then Some \<lparr>p_sid = Some s, p_scope = Some sc\<rparr> else None)"


text \<open>A verification that accepts no token.\<close>

definition no_token :: jwt_verify where
  "no_token = (\<lambda>t secret. None)"

definition ws_url :: "(string \<times> string) list \<Rightarrow> parsed_url" where
  "ws_url ps = \<lparr>pathname = ''/ws'', searchParams = ps\<rparr>"

text \<open>Every set a registry holds has a member.\<close>

definition nonempty_sets :: "('k \<times> 'a list) list \<Rightarrow> bool" where
  "nonempty_sets m = list_all (\<lambda>p. snd p \<noteq> []) m"

text \<open>No set a registry holds has a repetition.\<close>

definition distinct_sets :: "('k \<times> 'a list) list \<Rightarrow> bool" where
  "distinct_sets m = list_all (\<lambda>p. distinct (snd p)) m"

section \<open>Properties\<close>

subsection \<open>Facts about maps, sets and the delivery loop\<close>

lemma map_of_js_map_set: "map_of (js_map_set m k v) = (map_of m)(k \<mapsto> v)"
  by (simp add: js_map_set_def update_conv')

lemma map_of_js_map_delete: "map_of (js_map_delete m k) = (map_of m)(k := None)"
  by (simp add: js_map_delete_def delete_conv')

lemma write_part_ok:
  "takes_part c \<Longrightarrow> write_part c buf =
     (c\<lparr>rc_out := rc_out c @ [mjpeg_head buf, buf, crlf],
        rc_budget := map_option (\<lambda>n. n - 3) (rc_budget c)\<rparr>, None)"
  by (auto simp: takes_part_def write_part_def res_write_def numeral_3_eq_3
      split: option.splits nat.splits)

lemma write_part_fails:
  "\<not> takes_part c \<Longrightarrow> \<exists>c' e. write_part c buf = (c', Some e)"
  by (auto simp: takes_part_def write_part_def res_write_def numeral_3_eq_3
      split: option.splits nat.splits)

text \<open>
  What the loop of \<^verbatim>\<open>pushFrame\<close> computes on a set: the watchers whose channel does
  not take the part leave the set, and every visited channel has the part, or what of
  it was written before the exception.
\<close>

lemma deliver_all_spec:
  "distinct rs \<Longrightarrow> deliver_all rs buf (s, ch) =
     (filter (\<lambda>r. r \<in> set rs \<longrightarrow> takes_part (ch r)) s,
      (\<lambda>r. if r \<in> set rs then after_part (ch r) buf else ch r))"
proof (induction rs arbitrary: s ch)
  case Nil
  then show ?case by simp
next
  case (Cons r rs)
  then have d: "distinct rs" and nin: "r \<notin> set rs" by auto
  show ?case
  proof (cases "takes_part (ch r)")
    case True
    then show ?thesis
      using Cons.IH[OF d] nin
      by (auto simp: write_part_ok after_part_def fun_eq_iff intro!: filter_cong)
  next
    case False
    then obtain c' e where w: "write_part (ch r) buf = (c', Some e)"
      using write_part_fails by blast
    show ?thesis
      using Cons.IH[OF d] nin False w
      by (auto simp: after_part_def fun_eq_iff js_set_delete_def removeAll_filter_not_eq
          intro!: filter_cong)
  qed
qed

lemma pushFrame_returns: "\<exists>st'. pushFrame st sid buf = Inr st'"
  by (simp add: pushFrame_def Let_def split: option.splits prod.splits)

lemma pushFrame_latest:
  "pushFrame st sid buf = Inr st' \<Longrightarrow> latest st' = js_map_set (latest st) sid buf"
  by (auto simp: pushFrame_def Let_def split: option.splits prod.splits)

lemma pushFrame_uploaders:
  "pushFrame st sid buf = Inr st' \<Longrightarrow> uploaders st' = uploaders st"
  by (auto simp: pushFrame_def Let_def split: option.splits prod.splits)

lemma pushFrame_watchers_dom:
  "pushFrame st sid buf = Inr st' \<Longrightarrow> map_of (watchers st) k \<noteq> None
     \<Longrightarrow> map_of (watchers st') k \<noteq> None"
  by (auto simp: pushFrame_def Let_def map_of_js_map_set split: option.splits prod.splits)

subsection \<open>Failure isolation of the broadcast\<close>

text \<open>
  Claim C1.  \<^verbatim>\<open>pushFrame\<close> returns without an exception whatever the channels do.
  A write fails on a watcher exactly when its channel does not take the three writes
  of a part.  Those watchers are removed from the set of the session; every other
  watcher of the session stays registered and has the part (header, frame, line break)
  appended to what was written to it; the sets of the other sessions are untouched.
  The set of the session is a \<^verbatim>\<open>Set\<close>, so it has no repetition.
\<close>

theorem pushFrame_isolates_failures:
  assumes "distinct (watchers_of st sid)"
  shows "\<exists>st'. pushFrame st sid buf = Inr st'
           \<and> map_of (latest st') sid = Some buf
           \<and> watchers_of st' sid = filter (\<lambda>r. takes_part (chans st r)) (watchers_of st sid)
           \<and> (\<forall>r \<in> set (watchers_of st sid). takes_part (chans st r) \<longrightarrow>
                 rc_out (chans st' r) = rc_out (chans st r) @ [mjpeg_head buf, buf, crlf])
           \<and> (\<forall>k. k \<noteq> sid \<longrightarrow> map_of (watchers st') k = map_of (watchers st) k)"
proof (cases "map_of (watchers st) sid")
  case None
  then show ?thesis
    by (simp add: pushFrame_def watchers_of_def map_of_js_map_set)
next
  case (Some ws)
  with assms have d: "distinct ws" by (simp add: watchers_of_def)
  show ?thesis
    using Some
    by (simp add: pushFrame_def watchers_of_def map_of_js_map_set
        deliver_all_spec[OF d] after_part_def write_part_ok cong: filter_cong)
qed

text \<open>
  Three watchers of session 7, the second of which fails on its second write: it is
  removed, the first and the third receive the frame.
\<close>

theorem pushFrame_isolates_failures_witness:
  "\<exists>st'. pushFrame three_watchers ''7'' ''ab'' = Inr st'
      \<and> watchers_of st' ''7'' = [1, 3]
      \<and> rc_out (chans st' 1) = [mjpeg_head ''ab'', ''ab'', crlf]
      \<and> rc_out (chans st' 3) = [mjpeg_head ''ab'', ''ab'', crlf]"
proof -
  have "distinct (watchers_of three_watchers ''7'')"
    by (simp add: three_watchers_def watchers_of_def)
  from pushFrame_isolates_failures [OF this, of "''ab''"]
  obtain st' where "pushFrame three_watchers ''7'' ''ab'' = Inr st'"
    and "watchers_of st' ''7'' = [1, 3]"
    and "rc_out (chans st' 1) = [mjpeg_head ''ab'', ''ab'', crlf]"
    and "rc_out (chans st' 3) = [mjpeg_head ''ab'', ''ab'', crlf]"
    by (auto simp: three_watchers_def watchers_of_def example_chan_def takes_part_def)
  then show ?thesis by blast
qed

subsection \<open>Facts about runs\<close>

lemma or_default_id: "s \<noteq> [] \<Longrightarrow> or_default s d = s"
  by (simp add: or_default_def)

lemma run_returns:
  assumes "\<And>st e. \<exists>st'. step st e = Inr st'"
  shows "\<exists>st'. run step st es = Inr st'"
proof (induction es arbitrary: st)
  case Nil
  show ?case by simp
next
  case (Cons e es)
  obtain st1 where "step st e = Inr st1" using assms by blast
  with Cons show ?case by simp
qed

lemma run_invariant:
  assumes "\<And>st e st'. P st \<Longrightarrow> e \<in> set es \<Longrightarrow> step st e = Inr st' \<Longrightarrow> P st'"
    and "P st" and "run step st es = Inr st'"
  shows "P st'"
  using assms
proof (induction es arbitrary: st)
  case Nil
  then show ?case by simp
next
  case (Cons e es)
  from Cons.prems(3) obtain st1 where s1: "step st e = Inr st1" and r: "run step st1 es = Inr st'"
    by (auto split: sum.splits)
  have "P st1" using Cons.prems(1)[OF Cons.prems(2) _ s1] by simp
  moreover have "P a \<Longrightarrow> x \<in> set es \<Longrightarrow> step a x = Inr b \<Longrightarrow> P b" for a x b
    using Cons.prems(1)[of a x b] by simp
  ultimately show ?case using Cons.IH[of st1] r by blast
qed

lemma t_step_returns: "\<exists>st'. t_step cfg verify st e = Inr st'"
  by (cases e) (simp_all add: pushFrame_returns)

lemma d_step_returns: "\<exists>st'. d_step cfg st e = Inr st'"
  by (cases e) (simp_all add: pushFrame_returns)

lemma latest_mjpg_handler: "latest (mjpg_handler hdrs st psid res) = latest st"
  by (simp add: mjpg_handler_def Let_def)

lemma latest_watcher_gone: "latest (watcher_gone st sid res) = latest st"
  by (simp add: watcher_gone_def split: option.splits)

lemma latest_d_connection: "latest (d_connection st ws wsid) = latest st"
  by (simp add: d_connection_def Let_def)

lemma latest_d_ws_close: "latest (d_ws_close st ws sid) = latest st"
  by (simp add: d_ws_close_def Let_def split: option.splits)

lemma latest_d_admin_disconnect:
  "map_of (latest st) s = None \<Longrightarrow> map_of (latest (snd (d_admin_disconnect cfg st req))) s = None"
  by (simp add: d_admin_disconnect_def Let_def map_of_js_map_delete)

lemma t_step_unpublished:
  "map_of (latest st) s = None \<Longrightarrow> \<not> publishes s e \<Longrightarrow> t_step cfg verify st e = Inr st'
     \<Longrightarrow> map_of (latest st') s = None"
  by (cases e)
     (auto simp: t_get_mjpg_def latest_mjpg_handler latest_watcher_gone map_of_js_map_set
        dest!: pushFrame_latest split: guard.splits)

lemma d_step_unpublished:
  "map_of (latest st) s = None \<Longrightarrow> \<not> publishes s e \<Longrightarrow> d_step cfg st e = Inr st'
     \<Longrightarrow> map_of (latest st') s = None"
  by (cases e)
     (auto simp: d_get_mjpg_def latest_mjpg_handler latest_watcher_gone map_of_js_map_set
        latest_d_connection latest_d_ws_close latest_d_admin_disconnect
        dest!: pushFrame_latest)

lemma jpg_handler_absent:
  "s \<noteq> [] \<Longrightarrow> map_of (latest st) s = None
     \<Longrightarrow> jpg_handler hdrs st s = \<lparr>rs_status = 204, rs_headers = hdrs, rs_body = NoBody\<rparr>"
  by (simp add: jpg_handler_def or_default_id)

lemma jpg_handler_present:
  "s \<noteq> [] \<Longrightarrow> map_of (latest st) s = Some buf
     \<Longrightarrow> rs_status (jpg_handler hdrs st s) = 200 \<and> rs_body (jpg_handler hdrs st s) = Raw buf"
  by (simp add: jpg_handler_def or_default_id)

lemma absent_not_key: "map_of m s = None \<Longrightarrow> s \<notin> set (js_map_keys m)"
  by (simp add: js_map_keys_def map_of_eq_None_iff)

subsection \<open>The frame store\<close>

text \<open>
  Claim C5.  Publishing \<open>F1\<close> and then \<open>F2\<close> for a session \<open>s\<close> returns both times, and
  afterwards the store holds \<open>F2\<close> for \<open>s\<close>.  \<^verbatim>\<open>GET /jpg/s\<close> then answers 200 with the
  body \<open>F2\<close>, in the digest variant always and in the token variant when the request
  passes the access gate.  A route parameter is never empty.
\<close>

theorem publish_twice_snapshot:
  assumes "s \<noteq> []" and "rq_sid req = s"
  shows "\<exists>st1 st2. pushFrame st s F1 = Inr st1 \<and> pushFrame st1 s F2 = Inr st2
           \<and> map_of (latest st2) s = Some F2
           \<and> rs_status (d_get_jpg st2 req) = 200 \<and> rs_body (d_get_jpg st2 req) = Raw F2
           \<and> (viewGuard cfg verify req = Next \<longrightarrow>
                rs_status (t_get_jpg cfg verify st2 req) = 200
                \<and> rs_body (t_get_jpg cfg verify st2 req) = Raw F2)"
proof -
  obtain st1 where 1: "pushFrame st s F1 = Inr st1"
    using pushFrame_returns by blast
  obtain st2 where 2: "pushFrame st1 s F2 = Inr st2"
    using pushFrame_returns by blast
  have l: "map_of (latest st2) s = Some F2"
    using pushFrame_latest[OF 2] by (simp add: map_of_js_map_set)
  have "rs_status (d_get_jpg st2 req) = 200 \<and> rs_body (d_get_jpg st2 req) = Raw F2"
    using jpg_handler_present[OF assms(1) l] assms(2) by (simp add: d_get_jpg_def)
  moreover have "viewGuard cfg verify req = Next \<longrightarrow>
      rs_status (t_get_jpg cfg verify st2 req) = 200 \<and> rs_body (t_get_jpg cfg verify st2 req) = Raw F2"
    using jpg_handler_present[OF assms(1) l] assms(2) by (simp add: t_get_jpg_def)
  ultimately show ?thesis using 1 2 l by blast
qed

theorem publish_twice_snapshot_witness:
  "\<exists>st1 st2. pushFrame example_init ''7'' ''ab'' = Inr st1 \<and> pushFrame st1 ''7'' ''cd'' = Inr st2
      \<and> map_of (latest st2) ''7'' = Some ''cd''
      \<and> rs_status (d_get_jpg st2 (plain_req ''7'')) = 200
      \<and> rs_body (d_get_jpg st2 (plain_req ''7'')) = Raw ''cd''
      \<and> rs_status (t_get_jpg open_cfg (\<lambda>t k. None) st2 (plain_req ''7'')) = 200
      \<and> rs_body (t_get_jpg open_cfg (\<lambda>t k. None) st2 (plain_req ''7'')) = Raw ''cd''"
proof -
  have g: "viewGuard open_cfg (\<lambda>t k. None) (plain_req ''7'') = Next"
    by (simp add: viewGuard_def verifyTokenOrOpen_def open_cfg_def)
  have n: "''7'' \<noteq> []" and r: "rq_sid (plain_req ''7'') = ''7''"
    by (simp_all add: plain_req_def)
  show ?thesis
    using publish_twice_snapshot [OF n r, of example_init "''ab''" "''cd''" open_cfg "\<lambda>t k. None"] g
    by simp
qed

text \<open>
  Claim C9.  In a run from the empty server in which no message arrives for the session
  \<open>s\<close>, the run goes through, \<^verbatim>\<open>GET /jpg/s\<close> answers 204 without a body, and the
  \<^verbatim>\<open>streams\<close> of \<^verbatim>\<open>/status\<close> do not list \<open>s\<close>; in both variants (in the token variant
  for a request that passes the access gate).
\<close>

theorem never_published_no_content:
  assumes "s \<noteq> []" and "\<forall>e \<in> set es. \<not> publishes s e" and "rq_sid req = s"
  shows "(\<exists>st. run (d_step dcfg) (init_state ch so) es = Inr st
            \<and> d_get_jpg st req = \<lparr>rs_status = 204, rs_headers = corsNoCache, rs_body = NoBody\<rparr>
            \<and> s \<notin> set (status_streams (rs_body (d_get_status dcfg st req'))))
       \<and> (\<exists>st. run (t_step cfg verify) (init_state ch so) es = Inr st
            \<and> (viewGuard cfg verify req = Next \<longrightarrow>
                 t_get_jpg cfg verify st req = \<lparr>rs_status = 204, rs_headers = noCache, rs_body = NoBody\<rparr>)
            \<and> s \<notin> set (status_streams (rs_body (t_get_status cfg verify st req'))))"
proof -
  have i: "map_of (latest (init_state ch so)) s = None"
    by (simp add: init_state_def)
  obtain dst where d: "run (d_step dcfg) (init_state ch so) es = Inr dst"
    using run_returns[of "d_step dcfg"] d_step_returns by blast
  have dl: "map_of (latest dst) s = None"
    using assms(2) d_step_unpublished
    by (intro run_invariant[where P = "\<lambda>st. map_of (latest st) s = None", OF _ i d]) blast
  obtain tst where t: "run (t_step cfg verify) (init_state ch so) es = Inr tst"
    using run_returns[of "t_step cfg verify"] t_step_returns by blast
  have tl: "map_of (latest tst) s = None"
    using assms(2) t_step_unpublished
    by (intro run_invariant[where P = "\<lambda>st. map_of (latest st) s = None", OF _ i t]) blast
  have "d_get_jpg dst req = \<lparr>rs_status = 204, rs_headers = corsNoCache, rs_body = NoBody\<rparr>"
    using dl assms(1,3) by (simp add: d_get_jpg_def jpg_handler_absent)
  moreover have "s \<notin> set (status_streams (rs_body (d_get_status dcfg dst req')))"
    using dl by (simp add: d_get_status_def absent_not_key)
  moreover have "viewGuard cfg verify req = Next \<longrightarrow>
       t_get_jpg cfg verify tst req = \<lparr>rs_status = 204, rs_headers = noCache, rs_body = NoBody\<rparr>"
    using tl assms(1,3) by (simp add: t_get_jpg_def jpg_handler_absent)
  moreover have "s \<notin> set (status_streams (rs_body (t_get_status cfg verify tst req')))"
    using tl by (auto simp: t_get_status_def reject_response_def absent_not_key split: guard.splits)
  ultimately show ?thesis using d t by blast
qed

text \<open>
  A watcher of session 7 registers and frames arrive for session 8 only: the snapshot of
  7 is empty and the status does not list 7.
\<close>

theorem never_published_no_content_witness:
  "(\<exists>st. run (d_step example_digest_cfg) example_init
             [GetMjpg (plain_req ''7'') 1, Connection 4 ''8'', Message ''8'' ''ab''] = Inr st
        \<and> d_get_jpg st (plain_req ''7'') = \<lparr>rs_status = 204, rs_headers = corsNoCache, rs_body = NoBody\<rparr>
        \<and> ''7'' \<notin> set (status_streams (rs_body (d_get_status example_digest_cfg st (plain_req [])))))
   \<and> (\<exists>st. run (t_step open_cfg (\<lambda>t k. None)) example_init
             [GetMjpg (plain_req ''7'') 1, Connection 4 ''8'', Message ''8'' ''ab''] = Inr st
        \<and> t_get_jpg open_cfg (\<lambda>t k. None) st (plain_req ''7'')
            = \<lparr>rs_status = 204, rs_headers = noCache, rs_body = NoBody\<rparr>
        \<and> ''7'' \<notin> set (status_streams (rs_body (t_get_status open_cfg (\<lambda>t k. None) st (plain_req [])))))"
proof -
  have g: "viewGuard open_cfg (\<lambda>t k. None) (plain_req ''7'') = Next"
    by (simp add: viewGuard_def verifyTokenOrOpen_def open_cfg_def)
  have n: "''7'' \<noteq> []" and r: "rq_sid (plain_req ''7'') = ''7''"
    and p: "\<forall>e \<in> set [GetMjpg (plain_req ''7'') 1, Connection 4 ''8'', Message ''8'' ''ab'']. \<not> publishes ''7'' e"
    by (simp_all add: plain_req_def)
  show ?thesis
    using never_published_no_content [OF n p r, of example_digest_cfg "\<lambda>r. example_chan None"
        "\<lambda>w. example_sock" "plain_req []" open_cfg "\<lambda>t k. None"] g
    by (simp add: example_init_def)
qed

subsection \<open>Administrative disconnect\<close>

lemma try_close_idem: "try_close (try_close c) = try_close c"
  by (cases "ws_ready c") (auto simp: try_close_def ws_close_def)

lemma close_all_spec:
  "close_all ws so = (\<lambda>w. if w \<in> set ws then try_close (so w) else so w)"
proof (induction ws arbitrary: so)
  case Nil
  show ?case by simp
next
  case (Cons a ws)
  have "(case ws_close (so a) 4000 ''Admin disconnect'' of Inl _ \<Rightarrow> so | Inr c \<Rightarrow> so(a := c))
          = so(a := try_close (so a))"
    by (auto simp: try_close_def split: sum.splits)
  then show ?case
    by (auto simp: Cons.IH fun_eq_iff try_close_idem)
qed

lemma try_close_not_open: "\<not> ws_close_throws c \<Longrightarrow> ws_ready (try_close c) \<noteq> OPEN"
  by (cases "ws_ready c") (auto simp: try_close_def ws_close_def)

lemma try_close_open:
  "\<not> ws_close_throws c \<Longrightarrow> ws_ready c = OPEN
     \<Longrightarrow> try_close c = c\<lparr>ws_ready := CLOSING, ws_close_args := Some (4000, ''Admin disconnect'')\<rparr>"
  by (auto simp: try_close_def ws_close_def)

text \<open>
  Claim C8.  An authorised \<^verbatim>\<open>POST /admin/disconnect/s\<close> answers \<^verbatim>\<open>{ok: true}\<close>; it
  calls \<^verbatim>\<open>close(4000, 'Admin disconnect')\<close> on every uploader channel tracked for \<open>s\<close>, so
  that none of them on which the call does not throw is open afterwards, and on no
  other channel; it removes the stored frame of \<open>s\<close>, so that the snapshot of \<open>s\<close> is
  empty; the frames of the other sessions, the watcher registry, the watchers'
  channels and the uploader registry are as before.
\<close>

theorem admin_disconnect_frame:
  assumes "isAdmin cfg req" and "rq_sid req = s" and "s \<noteq> []"
  shows "\<exists>st'. d_admin_disconnect cfg st req = (\<lparr>rs_status = 200, rs_headers = [], rs_body = JsonOk\<rparr>, st')
           \<and> (\<forall>w \<in> set (uploaders_of st s). socks st' w = try_close (socks st w))
           \<and> (\<forall>w \<in> set (uploaders_of st s). \<not> ws_close_throws (socks st w) \<longrightarrow> ws_ready (socks st' w) \<noteq> OPEN)
           \<and> (\<forall>w. w \<notin> set (uploaders_of st s) \<longrightarrow> socks st' w = socks st w)
           \<and> map_of (latest st') s = None
           \<and> d_get_jpg st' req = \<lparr>rs_status = 204, rs_headers = corsNoCache, rs_body = NoBody\<rparr>
           \<and> (\<forall>k. k \<noteq> s \<longrightarrow> map_of (latest st') k = map_of (latest st) k)
           \<and> watchers st' = watchers st \<and> chans st' = chans st \<and> uploaders st' = uploaders st"
proof -
  define st' where "st' = snd (d_admin_disconnect cfg st req)"
  have r: "d_admin_disconnect cfg st req = (\<lparr>rs_status = 200, rs_headers = [], rs_body = JsonOk\<rparr>, st')"
    using assms(1) by (simp add: st'_def d_admin_disconnect_def Let_def)
  have so: "socks st' = (\<lambda>w. if w \<in> set (uploaders_of st s) then try_close (socks st w) else socks st w)"
    using assms
    by (auto simp: st'_def d_admin_disconnect_def Let_def uploaders_of_def or_default_id close_all_spec
        split: option.splits)
  have l: "map_of (latest st') = (map_of (latest st))(s := None)"
    using assms by (simp add: st'_def d_admin_disconnect_def Let_def or_default_id map_of_js_map_delete)
  have k: "watchers st' = watchers st \<and> chans st' = chans st \<and> uploaders st' = uploaders st"
    using assms by (simp add: st'_def d_admin_disconnect_def Let_def)
  have j: "d_get_jpg st' req = \<lparr>rs_status = 204, rs_headers = corsNoCache, rs_body = NoBody\<rparr>"
    using l assms by (simp add: d_get_jpg_def jpg_handler_absent)
  show ?thesis
    using r so l k j by (simp add: try_close_not_open)
qed

text \<open>
  Sessions 7 and 8 with frames, watchers and uploaders; session 7 is disconnected.
\<close>

theorem admin_disconnect_frame_witness:
  "\<exists>st'. d_admin_disconnect example_digest_cfg two_sessions (code_req ''7'' ''c0de'')
             = (\<lparr>rs_status = 200, rs_headers = [], rs_body = JsonOk\<rparr>, st')
      \<and> ws_ready (socks st' 4) = CLOSING \<and> ws_ready (socks st' 5) = CLOSING
      \<and> ws_ready (socks st' 6) = OPEN
      \<and> map_of (latest st') ''7'' = None \<and> map_of (latest st') ''8'' = Some ''cd''
      \<and> watchers st' = [(''7'', [1]), (''8'', [2])]"
proof -
  have a: "isAdmin example_digest_cfg (code_req ''7'' ''c0de'')"
    by (simp add: isAdmin_def example_digest_cfg_def code_req_def plain_req_def or_default_def)
  have r: "rq_sid (code_req ''7'' ''c0de'') = ''7''" and n: "''7'' \<noteq> []"
    by (simp_all add: code_req_def plain_req_def)
  from admin_disconnect_frame [OF a r n, of two_sessions]
  obtain st' where "d_admin_disconnect example_digest_cfg two_sessions (code_req ''7'' ''c0de'')
             = (\<lparr>rs_status = 200, rs_headers = [], rs_body = JsonOk\<rparr>, st')"
    and "socks st' 4 = try_close example_sock" and "socks st' 5 = try_close example_sock"
    and "socks st' 6 = example_sock"
    and "map_of (latest st') ''7'' = None" and "map_of (latest st') ''8'' = Some ''cd''"
    and "watchers st' = [(''7'', [1]), (''8'', [2])]"
    by (auto simp: two_sessions_def uploaders_of_def)
  then show ?thesis
    by (auto simp: try_close_def ws_close_def example_sock_def)
qed


subsection \<open>The uploader registry\<close>

lemma set_js_map_set: "p \<in> set (js_map_set m k v) \<Longrightarrow> p = (k, v) \<or> p \<in> set m"
  unfolding js_map_set_def by (induction m) (auto split: if_splits)

lemma set_js_map_delete: "p \<in> set (js_map_delete m k) \<Longrightarrow> p \<in> set m"
  by (simp add: js_map_delete_def AList.delete_eq)

lemma js_set_add_nonempty: "js_set_add s x \<noteq> []"
  by (auto simp: js_set_add_def)

lemma uploaders_d_connection:
  "uploaders (d_connection st ws wsid) =
     js_map_set (uploaders st) (or_default wsid ''0'')
       (js_set_add (uploaders_of st (or_default wsid ''0'')) ws)"
  by (auto simp: d_connection_def Let_def uploaders_of_def js_map_set_def update_conv'
      split: option.splits)

lemma nonempty_d_connection:
  "nonempty_sets (uploaders st) \<Longrightarrow> nonempty_sets (uploaders (d_connection st ws wsid))"
  by (auto simp: nonempty_sets_def list_all_iff uploaders_d_connection js_set_add_nonempty
      dest!: set_js_map_set)

lemma nonempty_d_ws_close:
  "nonempty_sets (uploaders st) \<Longrightarrow> nonempty_sets (uploaders (d_ws_close st ws sid))"
  by (auto simp: nonempty_sets_def list_all_iff d_ws_close_def Let_def
      dest!: set_js_map_set set_js_map_delete split: option.splits if_splits)

lemma uploaders_mjpg_handler: "uploaders (mjpg_handler hdrs st psid res) = uploaders st"
  by (simp add: mjpg_handler_def Let_def)

lemma uploaders_watcher_gone: "uploaders (watcher_gone st sid res) = uploaders st"
  by (simp add: watcher_gone_def split: option.splits)

lemma uploaders_d_admin_disconnect: "uploaders (snd (d_admin_disconnect cfg st req)) = uploaders st"
  by (simp add: d_admin_disconnect_def Let_def)

lemma d_step_nonempty:
  "nonempty_sets (uploaders st) \<Longrightarrow> d_step cfg st e = Inr st' \<Longrightarrow> nonempty_sets (uploaders st')"
  by (cases e)
     (auto simp: d_get_mjpg_def uploaders_mjpg_handler uploaders_watcher_gone
        uploaders_d_admin_disconnect nonempty_d_connection nonempty_d_ws_close
        dest: pushFrame_uploaders)

text \<open>
  Claim C10.  In every run of the digest variant from the empty server, every set in
  \<open>uploaders\<close> has a member, and \<^verbatim>\<open>/status\<close> reports no session with zero uploaders.
  A connection puts its channel into the set of its session, creating the entry when
  there is none; the close of the only channel of a session deletes the entry, and the
  close of a channel beside which others remain leaves those in the set.
\<close>

theorem uploaders_sets_nonempty:
  "(\<exists>st. run (d_step cfg) (init_state ch so) es = Inr st
       \<and> (\<forall>p \<in> set (uploaders st). snd p \<noteq> [])
       \<and> (\<forall>p \<in> set (status_uploaders (rs_body (d_get_status cfg st req))). 0 < snd p))
   \<and> ws \<in> set (uploaders_of (d_connection sta ws wsid) (or_default wsid ''0''))
   \<and> (uploaders_of stb sid = [ws] \<longrightarrow> map_of (uploaders (d_ws_close stb ws sid)) sid = None)
   \<and> (map_of (uploaders stb) sid = Some us \<and> js_set_delete us ws \<noteq> [] \<longrightarrow>
        map_of (uploaders (d_ws_close stb ws sid)) sid = Some (js_set_delete us ws))"
proof -
  obtain st where r: "run (d_step cfg) (init_state ch so) es = Inr st"
    using run_returns[of "d_step cfg"] d_step_returns by blast
  have "nonempty_sets (uploaders (init_state ch so))"
    by (simp add: nonempty_sets_def init_state_def)
  then have n: "nonempty_sets (uploaders st)"
    using d_step_nonempty
    by (intro run_invariant[where P = "\<lambda>st. nonempty_sets (uploaders st)", OF _ _ r]) blast+
  then have 1: "\<forall>p \<in> set (uploaders st). snd p \<noteq> []"
    by (simp add: nonempty_sets_def list_all_iff)
  then have 2: "\<forall>p \<in> set (status_uploaders (rs_body (d_get_status cfg st req))). 0 < snd p"
    by (auto simp: d_get_status_def counts_def)
  have 3: "ws \<in> set (uploaders_of (d_connection sta ws wsid) (or_default wsid ''0''))"
    by (simp add: uploaders_of_def uploaders_d_connection map_of_js_map_set js_set_add_def)
  have 4: "uploaders_of stb sid = [ws] \<longrightarrow> map_of (uploaders (d_ws_close stb ws sid)) sid = None"
    by (auto simp: uploaders_of_def d_ws_close_def Let_def js_set_delete_def map_of_js_map_delete
        split: option.splits)
  have 5: "map_of (uploaders stb) sid = Some us \<and> js_set_delete us ws \<noteq> [] \<longrightarrow>
        map_of (uploaders (d_ws_close stb ws sid)) sid = Some (js_set_delete us ws)"
    by (simp add: d_ws_close_def Let_def map_of_js_map_set)
  show ?thesis using r 1 2 3 4 5 by blast
qed

theorem uploaders_sets_nonempty_witness:
  "(\<exists>st. run (d_step example_digest_cfg) example_init
            [Connection 4 ''7'', Connection 5 ''7'', WsClose 4 ''7'', WsClose 5 ''7'', Connection 6 ''8''] = Inr st
       \<and> list_all (\<lambda>p. snd p \<noteq> []) (uploaders st)
       \<and> list_all (\<lambda>p. 0 < snd p) (status_uploaders (rs_body (d_get_status example_digest_cfg st (plain_req [])))))
   \<and> 4 \<in> set (uploaders_of (d_connection example_init 4 ''7'') ''7'')
   \<and> map_of (uploaders (d_ws_close (d_connection example_init 4 ''7'') 4 ''7'')) ''7'' = None"
proof -
  have u: "uploaders_of (d_connection example_init 4 ''7'') ''7'' = [4]"
    by (simp add: uploaders_of_def uploaders_d_connection map_of_js_map_set js_set_add_def
        or_default_def example_init_def init_state_def)
  show ?thesis
    using uploaders_sets_nonempty [where cfg = example_digest_cfg and ch = "\<lambda>r. example_chan None"
        and so = "\<lambda>w. example_sock"
        and es = "[Connection 4 ''7'', Connection 5 ''7'', WsClose 4 ''7'', WsClose 5 ''7'', Connection 6 ''8'']"
        and req = "plain_req []" and ws = 4 and sta = example_init and stb = "d_connection example_init 4 ''7''"
        and wsid = "''7''" and sid = "''7''"] u
    by (simp add: example_init_def list_all_iff or_default_def)
qed

subsection \<open>The watcher registry\<close>

lemma watchers_of_watcher_gone:
  "watchers_of (watcher_gone st sid res) k =
     (if k = sid then removeAll res (watchers_of st sid) else watchers_of st k)"
  by (auto simp: watchers_of_def watcher_gone_def map_of_js_map_set js_set_delete_def
      split: option.splits)

lemma watcher_gone_keeps_entry:
  "map_of (watchers st) k = Some y \<Longrightarrow> \<exists>z. map_of (watchers (watcher_gone st sid res)) k = Some z"
  by (auto simp: watcher_gone_def map_of_js_map_set split: option.splits)

lemma mjpg_handler_keeps_entry:
  "map_of (watchers st) k = Some y \<Longrightarrow> \<exists>z. map_of (watchers (mjpg_handler hdrs st psid res)) k = Some z"
  by (auto simp: mjpg_handler_def Let_def map_of_js_map_set split: option.splits)

lemma watchers_d_connection: "watchers (d_connection st ws wsid) = watchers st"
  by (simp add: d_connection_def Let_def)

lemma watchers_d_ws_close: "watchers (d_ws_close st ws sid) = watchers st"
  by (simp add: d_ws_close_def Let_def split: option.splits)

lemma watchers_d_admin_disconnect: "watchers (snd (d_admin_disconnect cfg st req)) = watchers st"
  by (simp add: d_admin_disconnect_def Let_def)

lemma d_step_keeps_entry:
  "map_of (watchers st) k \<noteq> None \<Longrightarrow> d_step cfg st e = Inr st' \<Longrightarrow> map_of (watchers st') k \<noteq> None"
  by (cases e)
     (auto simp: d_get_mjpg_def watchers_d_connection watchers_d_ws_close watchers_d_admin_disconnect
        dest: pushFrame_watchers_dom intro: watcher_gone_keeps_entry mjpg_handler_keeps_entry)

lemma t_step_keeps_entry:
  "map_of (watchers st) k \<noteq> None \<Longrightarrow> t_step cfg verify st e = Inr st' \<Longrightarrow> map_of (watchers st') k \<noteq> None"
  by (cases e)
     (auto simp: t_get_mjpg_def split: guard.splits
        dest: pushFrame_watchers_dom intro: watcher_gone_keeps_entry mjpg_handler_keeps_entry)

text \<open>
  Claim C6 says that the registry drops the entry of a session when its last watcher
  unregisters.  It does not: a watcher of session 7 registers and goes, and the registry
  keeps 7 with the empty set, in both variants.
\<close>

theorem unregister_last_keeps_empty_set_counterexample:
  "map_sum id watchers
     (run (d_step example_digest_cfg) example_init [GetMjpg (plain_req ''7'') 1, WatcherGone ''7'' 1])
     = Inr [(''7'', [])]
   \<and> map_sum id watchers
     (run (t_step open_cfg no_token) example_init [GetMjpg (plain_req ''7'') 1, WatcherGone ''7'' 1])
     = Inr [(''7'', [])]"
  by (simp add: example_init_def init_state_def d_get_mjpg_def t_get_mjpg_def mjpg_handler_def
      watcher_gone_def plain_req_def or_default_def js_map_set_def js_set_add_def js_set_delete_def
      viewGuard_def verifyTokenOrOpen_def open_cfg_def Let_def)

text \<open>
  Claim C6, amended.  Unregistering a watcher removes it from the set of its session and
  leaves the other watchers of that session and the sets of the other sessions as they
  were.  No entry of the registry is ever deleted: when the last watcher of a session
  goes, the session keeps an entry with the empty set, and in every run of either variant
  a session that has an entry still has one at the end.
\<close>

theorem unregister_keeps_entry:
  "watchers_of (watcher_gone st sid res) sid = removeAll res (watchers_of st sid)
   \<and> (\<forall>k. k \<noteq> sid \<longrightarrow> watchers_of (watcher_gone st sid res) k = watchers_of st k)
   \<and> (map_of (watchers st) sid \<noteq> None \<and> set (watchers_of st sid) \<subseteq> {res}
        \<longrightarrow> map_of (watchers (watcher_gone st sid res)) sid = Some [])
   \<and> (\<exists>st'. run (d_step dcfg) st es = Inr st'
          \<and> (map_of (watchers st) s \<noteq> None \<longrightarrow> map_of (watchers st') s \<noteq> None))
   \<and> (\<exists>st'. run (t_step cfg verify) st es = Inr st'
          \<and> (map_of (watchers st) s \<noteq> None \<longrightarrow> map_of (watchers st') s \<noteq> None))"
proof -
  have 1: "watchers_of (watcher_gone st sid res) sid = removeAll res (watchers_of st sid)"
    and 2: "\<forall>k. k \<noteq> sid \<longrightarrow> watchers_of (watcher_gone st sid res) k = watchers_of st k"
    by (simp_all add: watchers_of_watcher_gone)
  have 3: "map_of (watchers st) sid \<noteq> None \<and> set (watchers_of st sid) \<subseteq> {res}
        \<longrightarrow> map_of (watchers (watcher_gone st sid res)) sid = Some []"
    by (auto simp: watchers_of_def watcher_gone_def map_of_js_map_set js_set_delete_def
        removeAll_filter_not_eq filter_empty_conv split: option.splits)
  obtain dst where d: "run (d_step dcfg) st es = Inr dst"
    using run_returns[of "d_step dcfg"] d_step_returns by blast
  have 4: "map_of (watchers st) s \<noteq> None \<longrightarrow> map_of (watchers dst) s \<noteq> None"
  proof
    assume a: "map_of (watchers st) s \<noteq> None"
    show "map_of (watchers dst) s \<noteq> None"
      using d_step_keeps_entry
      by (intro run_invariant[where P = "\<lambda>st. map_of (watchers st) s \<noteq> None", OF _ a d]) blast
  qed
  obtain tst where t: "run (t_step cfg verify) st es = Inr tst"
    using run_returns[of "t_step cfg verify"] t_step_returns by blast
  have 5: "map_of (watchers st) s \<noteq> None \<longrightarrow> map_of (watchers tst) s \<noteq> None"
  proof
    assume a: "map_of (watchers st) s \<noteq> None"
    show "map_of (watchers tst) s \<noteq> None"
      using t_step_keeps_entry
      by (intro run_invariant[where P = "\<lambda>st. map_of (watchers st) s \<noteq> None", OF _ a t]) blast
  qed
  show ?thesis using 1 2 3 4 5 d t by blast
qed

theorem unregister_keeps_entry_witness:
  "watchers_of (watcher_gone two_sessions ''7'' 1) ''7'' = []
   \<and> watchers_of (watcher_gone two_sessions ''7'' 1) ''8'' = [2]
   \<and> map_of (watchers (watcher_gone two_sessions ''7'' 1)) ''7'' = Some []
   \<and> (\<exists>st'. run (d_step example_digest_cfg) two_sessions [WatcherGone ''7'' 1] = Inr st'
          \<and> map_of (watchers st') ''7'' \<noteq> None)
   \<and> (\<exists>st'. run (t_step open_cfg (\<lambda>t k. None)) two_sessions [WatcherGone ''7'' 1] = Inr st'
          \<and> map_of (watchers st') ''7'' \<noteq> None)"
  using unregister_keeps_entry [where st = two_sessions and sid = "''7''" and res = 1
      and dcfg = example_digest_cfg and es = "[WatcherGone ''7'' 1]" and s = "''7''"
      and cfg = open_cfg and verify = "\<lambda>t k. None"]
  by (simp add: two_sessions_def watchers_of_def)

subsection \<open>The access gate\<close>

lemma verifyTokenOrOpen_Next_iff:
  "verifyTokenOrOpen cfg verify chk req = Next \<longleftrightarrow>
     \<not> truthy (JWT_SECRET cfg)
     \<or> (\<exists>secret tok p. JWT_SECRET cfg = Some secret \<and> bearerOrQueryToken req = Some tok \<and> tok \<noteq> []
           \<and> verify tok secret = Some p \<and> chk p req)"
  by (auto simp: verifyTokenOrOpen_def split: option.splits)

lemma verifyTokenOrOpen_codes:
  "verifyTokenOrOpen cfg verify chk req = Reject code err \<Longrightarrow> code = 401 \<or> code = 403"
  by (auto simp: verifyTokenOrOpen_def split: option.splits if_splits)







lemma t_get_status_granted:
  "rs_status (t_get_status cfg verify st req) = 200 \<longleftrightarrow> adminGuard cfg verify req = Next"
  by (auto simp: t_get_status_def adminGuard_def reject_response_def
      split: guard.splits dest: verifyTokenOrOpen_codes)

lemma t_get_status_rejected:
  "adminGuard cfg verify req \<noteq> Next \<Longrightarrow>
     (rs_status (t_get_status cfg verify st req) = 401 \<or> rs_status (t_get_status cfg verify st req) = 403)
     \<and> status_streams (rs_body (t_get_status cfg verify st req)) = []"
  by (auto simp: t_get_status_def adminGuard_def reject_response_def
      split: guard.splits dest: verifyTokenOrOpen_codes)

text \<open>
  Claim C3 says that \<^verbatim>\<open>/status\<close> enumerates only for a valid administrative credential
  whenever a server secret is configured.  The digest variant, whose shared secret is
  always configured, answers a request that carries no credential at all.
\<close>

theorem status_open_in_digest_variant_counterexample:
  "rq_query_code (plain_req []) = None \<and> rq_header_code (plain_req []) = None
   \<and> rq_authorization (plain_req []) = None \<and> rq_query_t (plain_req []) = None
   \<and> SHARED_SECRET example_digest_cfg = ''devsecret-change-me''
   \<and> rs_status (d_get_status example_digest_cfg two_sessions (plain_req [])) = 200
   \<and> rs_body (d_get_status example_digest_cfg two_sessions (plain_req []))
        = JsonStatus None [''7'', ''8''] [(''7'', 1), (''8'', 1)] (Some [(''7'', 2), (''8'', 1)])"
  by (simp add: plain_req_def example_digest_cfg_def d_get_status_def two_sessions_def
      js_map_keys_def counts_def)

lemma t_get_status_answers:
  assumes "JWT_SECRET cfg = Some secret" and "secret \<noteq> []"
  shows "t_get_status cfg verify st req =
     (case bearerOrQueryToken req of
        None \<Rightarrow> reject_response 401 ''missing_token''
      | Some tok \<Rightarrow>
          if tok = [] then reject_response 401 ''missing_token''
          else
            (case verify tok secret of
               None \<Rightarrow> reject_response 401 ''invalid_token''
             | Some p \<Rightarrow>
                 if p_scope p = Some ''admin''
                 then \<lparr>rs_status = 200, rs_headers = noCache,
                       rs_body = JsonStatus (Some ''secure'') (map fst (latest st))
                                   (map (\<lambda>(k, v). (k, length v)) (watchers st)) None\<rparr>
                 else reject_response 403 ''forbidden''))"
  using assms
  by (simp add: t_get_status_def adminGuard_def verifyTokenOrOpen_def js_map_keys_def counts_def
      split: option.splits)

text \<open>
  Claim C3, amended.  In the token variant with a token secret in force, \<^verbatim>\<open>/status\<close>
  answers 200 exactly when the request carries a token that verifies under that secret
  with scope \<^verbatim>\<open>admin\<close>, and the answer then is the enumeration: the mode, the keys of
  the stored frames and the number of watchers of every session in the registry.  Every
  other request is answered 401 or 403 with an error document and nothing else:
  \<^verbatim>\<open>missing_token\<close>, \<^verbatim>\<open>invalid_token\<close> or \<^verbatim>\<open>forbidden\<close>.  In the digest variant
  \<^verbatim>\<open>/status\<close> checks no credential and always answers with the enumeration, which there
  has the number of uploaders of every session as well.
\<close>

theorem status_gate:
  "(truthy (JWT_SECRET cfg) \<longrightarrow>
      (rs_status (t_get_status cfg verify st req) = 200) =
      (\<exists>secret tok p. JWT_SECRET cfg = Some secret \<and> bearerOrQueryToken req = Some tok \<and> tok \<noteq> []
          \<and> verify tok secret = Some p \<and> p_scope p = Some ''admin''))
   \<and> (rs_status (t_get_status cfg verify st req) \<noteq> 200 \<longrightarrow>
        (rs_status (t_get_status cfg verify st req) = 401 \<or> rs_status (t_get_status cfg verify st req) = 403)
        \<and> status_streams (rs_body (t_get_status cfg verify st req)) = [])
   \<and> (truthy (JWT_SECRET cfg) \<and> rs_status (t_get_status cfg verify st req) = 200 \<longrightarrow>
        t_get_status cfg verify st req =
          \<lparr>rs_status = 200, rs_headers = noCache,
           rs_body = JsonStatus (Some ''secure'') (map fst (latest st))
                       (map (\<lambda>(k, v). (k, length v)) (watchers st)) None\<rparr>)
   \<and> (truthy (JWT_SECRET cfg) \<and> rs_status (t_get_status cfg verify st req) \<noteq> 200 \<longrightarrow>
        t_get_status cfg verify st req
          = \<lparr>rs_status = 401, rs_headers = [], rs_body = JsonError ''missing_token''\<rparr>
        \<or> t_get_status cfg verify st req
          = \<lparr>rs_status = 401, rs_headers = [], rs_body = JsonError ''invalid_token''\<rparr>
        \<or> t_get_status cfg verify st req
          = \<lparr>rs_status = 403, rs_headers = [], rs_body = JsonError ''forbidden''\<rparr>)
   \<and> d_get_status dcfg st req =
        \<lparr>rs_status = 200, rs_headers = corsNoCache,
         rs_body = JsonStatus None (map fst (latest st))
                     (map (\<lambda>(k, v). (k, length v)) (watchers st))
                     (Some (map (\<lambda>(k, v). (k, length v)) (uploaders st)))\<rparr>"
proof -
  have 1: "truthy (JWT_SECRET cfg) \<longrightarrow>
      (rs_status (t_get_status cfg verify st req) = 200) =
      (\<exists>secret tok p. JWT_SECRET cfg = Some secret \<and> bearerOrQueryToken req = Some tok \<and> tok \<noteq> []
          \<and> verify tok secret = Some p \<and> p_scope p = Some ''admin'')"
    by (simp add: t_get_status_granted adminGuard_def verifyTokenOrOpen_Next_iff)
  have 2: "rs_status (t_get_status cfg verify st req) \<noteq> 200 \<longrightarrow>
        (rs_status (t_get_status cfg verify st req) = 401 \<or> rs_status (t_get_status cfg verify st req) = 403)
        \<and> status_streams (rs_body (t_get_status cfg verify st req)) = []"
    using t_get_status_rejected[of cfg verify req st] by (simp add: t_get_status_granted)
  have 3: "truthy (JWT_SECRET cfg) \<and> rs_status (t_get_status cfg verify st req) = 200 \<longrightarrow>
        t_get_status cfg verify st req =
          \<lparr>rs_status = 200, rs_headers = noCache,
           rs_body = JsonStatus (Some ''secure'') (map fst (latest st))
                       (map (\<lambda>(k, v). (k, length v)) (watchers st)) None\<rparr>"
  proof
    assume a: "truthy (JWT_SECRET cfg) \<and> rs_status (t_get_status cfg verify st req) = 200"
    then obtain secret where k: "JWT_SECRET cfg = Some secret" "secret \<noteq> []"
      by (cases "JWT_SECRET cfg") auto
    show "t_get_status cfg verify st req =
          \<lparr>rs_status = 200, rs_headers = noCache,
           rs_body = JsonStatus (Some ''secure'') (map fst (latest st))
                       (map (\<lambda>(k, v). (k, length v)) (watchers st)) None\<rparr>"
      using a
      by (auto simp: t_get_status_answers[OF k] reject_response_def split: option.splits if_splits)
  qed
  have 4: "truthy (JWT_SECRET cfg) \<and> rs_status (t_get_status cfg verify st req) \<noteq> 200 \<longrightarrow>
        t_get_status cfg verify st req
          = \<lparr>rs_status = 401, rs_headers = [], rs_body = JsonError ''missing_token''\<rparr>
        \<or> t_get_status cfg verify st req
          = \<lparr>rs_status = 401, rs_headers = [], rs_body = JsonError ''invalid_token''\<rparr>
        \<or> t_get_status cfg verify st req
          = \<lparr>rs_status = 403, rs_headers = [], rs_body = JsonError ''forbidden''\<rparr>"
  proof
    assume a: "truthy (JWT_SECRET cfg) \<and> rs_status (t_get_status cfg verify st req) \<noteq> 200"
    then obtain secret where k: "JWT_SECRET cfg = Some secret" "secret \<noteq> []"
      by (cases "JWT_SECRET cfg") auto
    show "t_get_status cfg verify st req
          = \<lparr>rs_status = 401, rs_headers = [], rs_body = JsonError ''missing_token''\<rparr>
        \<or> t_get_status cfg verify st req
          = \<lparr>rs_status = 401, rs_headers = [], rs_body = JsonError ''invalid_token''\<rparr>
        \<or> t_get_status cfg verify st req
          = \<lparr>rs_status = 403, rs_headers = [], rs_body = JsonError ''forbidden''\<rparr>"
      using a
      by (auto simp: t_get_status_answers[OF k] reject_response_def split: option.splits if_splits)
  qed
  show ?thesis using 1 2 3 4 by (simp add: d_get_status_def js_map_keys_def counts_def)
qed

theorem status_gate_witness:
  "rs_status (t_get_status (secure_cfg ''k'') (one_token ''tok'' ''k'' ''7'' ''admin'') two_sessions (token_req [] ''tok'')) = 200
   \<and> rs_status (t_get_status (secure_cfg ''k'') (one_token ''tok'' ''k'' ''7'' ''view'') two_sessions (token_req [] ''tok'')) = 403
   \<and> rs_status (t_get_status (secure_cfg ''k'') (one_token ''tok'' ''k'' ''7'' ''admin'') two_sessions (plain_req [])) = 401
   \<and> rs_status (d_get_status example_digest_cfg two_sessions (plain_req [])) = 200
   \<and> rs_body (t_get_status (secure_cfg ''k'') (one_token ''tok'' ''k'' ''7'' ''admin'') two_sessions (token_req [] ''tok''))
       = JsonStatus (Some ''secure'') [''7'', ''8''] [(''7'', 1), (''8'', 1)] None
   \<and> rs_body (t_get_status (secure_cfg ''k'') (one_token ''tok'' ''k'' ''7'' ''view'') two_sessions (token_req [] ''tok''))
       = JsonError ''forbidden''"
proof -
  have t: "truthy (JWT_SECRET (secure_cfg ''k''))"
    by (simp add: secure_cfg_def)
  have 1: "rs_status (t_get_status (secure_cfg ''k'') (one_token ''tok'' ''k'' ''7'' ''admin'') two_sessions (token_req [] ''tok'')) = 200"
    using status_gate [where cfg = "secure_cfg ''k''" and verify = "one_token ''tok'' ''k'' ''7'' ''admin''"
        and st = two_sessions and req = "token_req [] ''tok''"] t
    by (simp add: secure_cfg_def bearerOrQueryToken_def token_req_def plain_req_def one_token_def)
  have 2: "rs_status (t_get_status (secure_cfg ''k'') (one_token ''tok'' ''k'' ''7'' ''view'') two_sessions (token_req [] ''tok'')) = 403"
    by (simp add: t_get_status_def adminGuard_def verifyTokenOrOpen_def secure_cfg_def bearerOrQueryToken_def
        token_req_def plain_req_def one_token_def reject_response_def)
  have 3: "rs_status (t_get_status (secure_cfg ''k'') (one_token ''tok'' ''k'' ''7'' ''admin'') two_sessions (plain_req [])) = 401"
    by (simp add: t_get_status_def adminGuard_def verifyTokenOrOpen_def secure_cfg_def bearerOrQueryToken_def
        plain_req_def reject_response_def)
  have 4: "rs_status (d_get_status example_digest_cfg two_sessions (plain_req [])) = 200"
    using status_gate [where dcfg = example_digest_cfg and st = two_sessions and req = "plain_req []"]
    by simp
  have 5: "rs_body (t_get_status (secure_cfg ''k'') (one_token ''tok'' ''k'' ''7'' ''admin'') two_sessions (token_req [] ''tok''))
       = JsonStatus (Some ''secure'') [''7'', ''8''] [(''7'', 1), (''8'', 1)] None"
  proof -
    have "t_get_status (secure_cfg ''k'') (one_token ''tok'' ''k'' ''7'' ''admin'') two_sessions (token_req [] ''tok'')
        = \<lparr>rs_status = 200, rs_headers = noCache,
           rs_body = JsonStatus (Some ''secure'') (map fst (latest two_sessions))
                       (map (\<lambda>(k, v). (k, length v)) (watchers two_sessions)) None\<rparr>"
      using status_gate [where cfg = "secure_cfg ''k''" and verify = "one_token ''tok'' ''k'' ''7'' ''admin''"
          and st = two_sessions and req = "token_req [] ''tok''" and dcfg = example_digest_cfg] t 1
      by simp
    then show ?thesis by (simp add: two_sessions_def)
  qed
  have 6: "rs_body (t_get_status (secure_cfg ''k'') (one_token ''tok'' ''k'' ''7'' ''view'') two_sessions (token_req [] ''tok''))
       = JsonError ''forbidden''"
    using status_gate [where cfg = "secure_cfg ''k''" and verify = "one_token ''tok'' ''k'' ''7'' ''view''"
        and st = two_sessions and req = "token_req [] ''tok''" and dcfg = example_digest_cfg] t 2
    by auto
  show ?thesis using 1 2 3 4 5 6 by simp
qed

text \<open>
  Claim C4 says that administrative access does not depend on the secret of viewer and
  uploader credentials.  In the token variant \<^verbatim>\<open>/status\<close> is decided by that very secret:
  a token of scope \<^verbatim>\<open>admin\<close> signed with \<open>k1\<close> is accepted when the secret is \<open>k1\<close> and
  refused when it is \<open>k2\<close>, and a request without a token is accepted when no secret is set
  and refused when one is.
\<close>

theorem admin_depends_on_token_secret_counterexample:
  "API_KEY (secure_cfg ''k1'') = API_KEY (secure_cfg ''k2'') \<and> API_KEY (secure_cfg ''k1'') = API_KEY open_cfg
   \<and> rs_status (t_get_status (secure_cfg ''k1'') (one_token ''tok'' ''k1'' ''7'' ''admin'') two_sessions (token_req [] ''tok'')) = 200
   \<and> rs_status (t_get_status (secure_cfg ''k2'') (one_token ''tok'' ''k1'' ''7'' ''admin'') two_sessions (token_req [] ''tok'')) = 401
   \<and> rs_status (t_get_status open_cfg (one_token ''tok'' ''k1'' ''7'' ''admin'') two_sessions (plain_req [])) = 200
   \<and> rs_status (t_get_status (secure_cfg ''k1'') (one_token ''tok'' ''k1'' ''7'' ''admin'') two_sessions (plain_req [])) = 401"
  by (simp add: t_get_status_def adminGuard_def verifyTokenOrOpen_def secure_cfg_def open_cfg_def
      bearerOrQueryToken_def token_req_def plain_req_def one_token_def reject_response_def)

text \<open>
  Claim C4, amended.  In the digest variant the administrative decisions do not depend
  on \<open>SHARED_SECRET\<close>: a forced disconnect is granted exactly when the code of the request,
  in the query or in the header, is \<open>ADMIN_CODE\<close>, any other request being answered 404
  with nothing changed, and \<^verbatim>\<open>/status\<close> is granted to every request.  In the token variant there is no administrative secret of its own:
  \<^verbatim>\<open>/status\<close> is granted when no token secret is set, and otherwise exactly to a token
  that verifies under the token secret with scope \<^verbatim>\<open>admin\<close>.
\<close>

theorem admin_decision:
  "isAdmin (cfg\<lparr>SHARED_SECRET := x\<rparr>) req = isAdmin cfg req
   \<and> d_admin_disconnect (cfg\<lparr>SHARED_SECRET := x\<rparr>) st req = d_admin_disconnect cfg st req
   \<and> d_get_status (cfg\<lparr>SHARED_SECRET := x\<rparr>) st req = d_get_status cfg st req
   \<and> (rs_status (fst (d_admin_disconnect cfg st req)) = 200) =
       (opt_or_default (rq_query_code req) [] = ADMIN_CODE cfg
        \<or> opt_or_default (rq_header_code req) [] = ADMIN_CODE cfg)
   \<and> rs_status (d_get_status cfg st req) = 200
   \<and> (rs_status (t_get_status tcfg verify st req) = 200) =
       (\<not> truthy (JWT_SECRET tcfg)
        \<or> (\<exists>secret tok p. JWT_SECRET tcfg = Some secret \<and> bearerOrQueryToken req = Some tok \<and> tok \<noteq> []
              \<and> verify tok secret = Some p \<and> p_scope p = Some ''admin''))
   \<and> (rs_status (fst (d_admin_disconnect cfg st req)) \<noteq> 200 \<longrightarrow>
        d_admin_disconnect cfg st req
          = (\<lparr>rs_status = 404, rs_headers = [], rs_body = Raw ''Not found''\<rparr>, st))"
proof -
  have 1: "isAdmin (cfg\<lparr>SHARED_SECRET := x\<rparr>) req = isAdmin cfg req"
    by (simp add: isAdmin_def)
  then have 2: "d_admin_disconnect (cfg\<lparr>SHARED_SECRET := x\<rparr>) st req = d_admin_disconnect cfg st req"
    by (simp add: d_admin_disconnect_def)
  have 3: "(rs_status (fst (d_admin_disconnect cfg st req)) = 200) =
       (opt_or_default (rq_query_code req) [] = ADMIN_CODE cfg
        \<or> opt_or_default (rq_header_code req) [] = ADMIN_CODE cfg)"
    by (simp add: d_admin_disconnect_def isAdmin_def Let_def)
  have 4: "(rs_status (t_get_status tcfg verify st req) = 200) =
       (\<not> truthy (JWT_SECRET tcfg)
        \<or> (\<exists>secret tok p. JWT_SECRET tcfg = Some secret \<and> bearerOrQueryToken req = Some tok \<and> tok \<noteq> []
              \<and> verify tok secret = Some p \<and> p_scope p = Some ''admin''))"
    by (simp add: t_get_status_granted adminGuard_def verifyTokenOrOpen_Next_iff)
  have 5: "rs_status (fst (d_admin_disconnect cfg st req)) \<noteq> 200 \<longrightarrow>
        d_admin_disconnect cfg st req
          = (\<lparr>rs_status = 404, rs_headers = [], rs_body = Raw ''Not found''\<rparr>, st)"
    by (simp add: d_admin_disconnect_def Let_def)
  show ?thesis using 1 2 3 4 5 by (simp add: d_get_status_def)
qed

theorem admin_decision_witness:
  "rs_status (fst (d_admin_disconnect (example_digest_cfg\<lparr>SHARED_SECRET := ''other''\<rparr>) two_sessions (code_req ''7'' ''c0de''))) = 200
   \<and> rs_status (fst (d_admin_disconnect example_digest_cfg two_sessions (code_req ''7'' ''c0de''))) = 200
   \<and> rs_status (fst (d_admin_disconnect example_digest_cfg two_sessions (code_req ''7'' ''devsecret-change-me''))) = 404
   \<and> rs_status (t_get_status open_cfg (\<lambda>t k. None) two_sessions (plain_req [])) = 200"
proof -
  have 1: "rs_status (fst (d_admin_disconnect example_digest_cfg two_sessions (code_req ''7'' ''c0de''))) = 200"
    using admin_decision [where cfg = example_digest_cfg and st = two_sessions and req = "code_req ''7'' ''c0de''"]
    by (simp add: example_digest_cfg_def code_req_def plain_req_def or_default_def)
  have 2: "rs_status (fst (d_admin_disconnect (example_digest_cfg\<lparr>SHARED_SECRET := ''other''\<rparr>) two_sessions (code_req ''7'' ''c0de''))) = 200"
    using admin_decision [where cfg = example_digest_cfg and x = "''other''" and st = two_sessions
        and req = "code_req ''7'' ''c0de''"] 1
    by simp
  have 3: "rs_status (fst (d_admin_disconnect example_digest_cfg two_sessions (code_req ''7'' ''devsecret-change-me''))) = 404"
    by (simp add: d_admin_disconnect_def isAdmin_def example_digest_cfg_def code_req_def plain_req_def
        or_default_def)
  have 4: "rs_status (t_get_status open_cfg (\<lambda>t k. None) two_sessions (plain_req [])) = 200"
    using admin_decision [where tcfg = open_cfg and verify = "\<lambda>t k. None" and st = two_sessions
        and req = "plain_req []"]
    by (simp add: open_cfg_def)
  show ?thesis using 1 2 3 4 by simp
qed

subsection \<open>Upgrade requests\<close>

text \<open>
  Claim C7 says that an upgrade request without a session or credential parameter is
  always destroyed.  The token variant reads a missing \<^verbatim>\<open>sid\<close> as session 0: without
  a token secret it upgrades a request that has neither parameter, and with one it
  upgrades a request without \<^verbatim>\<open>sid\<close> that carries an upload token of session 0.
\<close>

theorem upgrade_without_parameters_counterexample:
  "t_upgrade open_cfg no_token (Some (ws_url [])) = Upgraded ''0''
   \<and> t_upgrade (secure_cfg ''k'') (one_token ''tok'' ''k'' ''0'' ''upload'') (Some (ws_url [(''t'', ''tok'')]))
       = Upgraded ''0''"
  by (simp add: t_upgrade_def open_cfg_def secure_cfg_def ws_url_def one_token_def or_default_def)

text \<open>
  Claim C7, amended.  An upgrade request on a path other than \<^verbatim>\<open>/ws\<close> is destroyed in
  both variants: the handler returns with the socket destroyed, nothing written and no
  upgrade.  So is, in the digest variant, a request whose \<^verbatim>\<open>sid\<close> or \<^verbatim>\<open>token\<close> is
  missing or empty, and in the token variant a request whose target does not parse,
  and, with a token secret in force, a request whose \<^verbatim>\<open>t\<close> is missing or empty.
  Without a token secret the token variant upgrades every request on \<^verbatim>\<open>/ws\<close>, for
  session 0 when \<^verbatim>\<open>sid\<close> is missing or empty.
\<close>

theorem upgrade_violations_destroyed:
  "(pathname u \<noteq> ''/ws'' \<longrightarrow>
      t_upgrade cfg verify (Some u) = Destroyed \<and> d_upgrade sha dcfg (Some u) = Inr Destroyed)
   \<and> t_upgrade cfg verify None = Destroyed
   \<and> (truthy (JWT_SECRET cfg) \<and> opt_or_default (map_of (searchParams u) ''t'') [] = [] \<longrightarrow>
        t_upgrade cfg verify (Some u) = Destroyed)
   \<and> (opt_or_default (map_of (searchParams u) ''sid'') [] = []
        \<or> opt_or_default (map_of (searchParams u) ''token'') [] = [] \<longrightarrow>
        d_upgrade sha dcfg (Some u) = Inr Destroyed)
   \<and> (\<not> truthy (JWT_SECRET cfg) \<and> pathname u = ''/ws'' \<longrightarrow>
        t_upgrade cfg verify (Some u)
          = Upgraded (opt_or_default (map_of (searchParams u) ''sid'') ''0''))"
  by (auto simp: t_upgrade_def d_upgrade_def Let_def split: option.splits)

theorem upgrade_violations_destroyed_witness:
  "t_upgrade open_cfg (\<lambda>t k. None) (Some \<lparr>pathname = ''/other'', searchParams = [(''sid'', ''7'')]\<rparr>) = Destroyed
   \<and> d_upgrade (\<lambda>x. x) example_digest_cfg (Some \<lparr>pathname = ''/other'', searchParams = [(''sid'', ''7'')]\<rparr>) = Inr Destroyed
   \<and> t_upgrade (secure_cfg ''k'') (one_token ''tok'' ''k'' ''7'' ''upload'') (Some (ws_url [(''sid'', ''7'')])) = Destroyed
   \<and> d_upgrade (\<lambda>x. x) example_digest_cfg (Some (ws_url [(''sid'', ''7'')])) = Inr Destroyed
   \<and> d_upgrade (\<lambda>x. x) example_digest_cfg (Some (ws_url [(''token'', ''devsecret-change-me:7'')])) = Inr Destroyed
   \<and> d_upgrade (\<lambda>x. x) example_digest_cfg (Some (ws_url [(''sid'', ''7''), (''token'', ''devsecret-change-me:7'')]))
       = Inr (Upgraded ''7'')"
proof -
  have 1: "t_upgrade open_cfg (\<lambda>t k. None) (Some \<lparr>pathname = ''/other'', searchParams = [(''sid'', ''7'')]\<rparr>) = Destroyed
     \<and> d_upgrade (\<lambda>x. x) example_digest_cfg (Some \<lparr>pathname = ''/other'', searchParams = [(''sid'', ''7'')]\<rparr>) = Inr Destroyed"
    using upgrade_violations_destroyed [where u = "\<lparr>pathname = ''/other'', searchParams = [(''sid'', ''7'')]\<rparr>"
        and cfg = open_cfg and verify = "\<lambda>t k. None" and sha = "\<lambda>x. x" and dcfg = example_digest_cfg]
    by simp
  have 2: "t_upgrade (secure_cfg ''k'') (one_token ''tok'' ''k'' ''7'' ''upload'') (Some (ws_url [(''sid'', ''7'')])) = Destroyed
     \<and> d_upgrade (\<lambda>x. x) example_digest_cfg (Some (ws_url [(''sid'', ''7'')])) = Inr Destroyed"
    using upgrade_violations_destroyed [where u = "ws_url [(''sid'', ''7'')]"
        and cfg = "secure_cfg ''k''" and verify = "one_token ''tok'' ''k'' ''7'' ''upload''"
        and sha = "\<lambda>x. x" and dcfg = example_digest_cfg]
    by (simp add: ws_url_def secure_cfg_def)
  have 3: "d_upgrade (\<lambda>x. x) example_digest_cfg (Some (ws_url [(''token'', ''devsecret-change-me:7'')])) = Inr Destroyed"
    using upgrade_violations_destroyed [where u = "ws_url [(''token'', ''devsecret-change-me:7'')]"
        and sha = "\<lambda>x. x" and dcfg = example_digest_cfg]
    by (simp add: ws_url_def)
  have 4: "d_upgrade (\<lambda>x. x) example_digest_cfg (Some (ws_url [(''sid'', ''7''), (''token'', ''devsecret-change-me:7'')]))
       = Inr (Upgraded ''7'')"
    by (simp add: d_upgrade_def ws_url_def example_digest_cfg_def tokenForSidHex_def safeEqual_def
        or_default_def)
  show ?thesis using 1 2 3 4 by simp
qed

subsection \<open>Reachable states\<close>

lemma distinct_js_set_add: "distinct s \<Longrightarrow> distinct (js_set_add s x)"
  by (simp add: js_set_add_def)

lemma distinct_js_set_delete: "distinct s \<Longrightarrow> distinct (js_set_delete s x)"
  by (simp add: js_set_delete_def distinct_removeAll)

lemma distinct_sets_set:
  "distinct_sets m \<Longrightarrow> distinct v \<Longrightarrow> distinct_sets (js_map_set m k v)"
  by (auto simp: distinct_sets_def list_all_iff dest!: set_js_map_set)

lemma distinct_sets_get: "distinct_sets m \<Longrightarrow> map_of m k = Some v \<Longrightarrow> distinct v"
  by (auto simp: distinct_sets_def list_all_iff dest!: map_of_SomeD)

lemma distinct_watchers_of: "distinct_sets (watchers st) \<Longrightarrow> distinct (watchers_of st sid)"
  by (auto simp: watchers_of_def split: option.splits dest: distinct_sets_get)

lemma distinct_sets_mjpg_handler:
  "distinct_sets (watchers st) \<Longrightarrow> distinct_sets (watchers (mjpg_handler hdrs st psid res))"
  by (auto simp: mjpg_handler_def Let_def map_of_js_map_set
      intro!: distinct_sets_set distinct_js_set_add dest: distinct_sets_get split: option.splits)

lemma distinct_sets_watcher_gone:
  "distinct_sets (watchers st) \<Longrightarrow> distinct_sets (watchers (watcher_gone st sid res))"
  by (auto simp: watcher_gone_def intro!: distinct_sets_set distinct_js_set_delete
      dest: distinct_sets_get split: option.splits)

lemma distinct_sets_pushFrame:
  assumes "distinct_sets (watchers st)" and "pushFrame st sid buf = Inr st'"
  shows "distinct_sets (watchers st')"
proof (cases "map_of (watchers st) sid")
  case None
  with assms show ?thesis by (auto simp: pushFrame_def)
next
  case (Some s)
  have d: "distinct s" by (rule distinct_sets_get[OF assms(1) Some])
  show ?thesis
    using assms Some
    by (auto simp: pushFrame_def deliver_all_spec[OF d] d intro!: distinct_sets_set)
qed

lemma d_step_distinct_sets:
  "distinct_sets (watchers st) \<Longrightarrow> d_step cfg st e = Inr st' \<Longrightarrow> distinct_sets (watchers st')"
  by (cases e)
     (auto simp: d_get_mjpg_def watchers_d_connection watchers_d_ws_close watchers_d_admin_disconnect
        distinct_sets_mjpg_handler distinct_sets_watcher_gone dest: distinct_sets_pushFrame)

lemma t_step_distinct_sets:
  "distinct_sets (watchers st) \<Longrightarrow> t_step cfg verify st e = Inr st' \<Longrightarrow> distinct_sets (watchers st')"
  by (cases e)
     (auto simp: t_get_mjpg_def distinct_sets_mjpg_handler distinct_sets_watcher_gone
        split: guard.splits dest: distinct_sets_pushFrame)

text \<open>
  In every run from the empty server the watcher sets have no repetition: the
  hypothesis of the broadcast theorem holds in every state a server reaches.
\<close>

lemma reachable_watchers_distinct:
  "(run (d_step dcfg) (init_state ch so) es = Inr st \<longrightarrow> distinct (watchers_of st sid))
   \<and> (run (t_step cfg verify) (init_state ch so) es = Inr st \<longrightarrow> distinct (watchers_of st sid))"
proof -
  have i: "distinct_sets (watchers (init_state ch so))"
    by (simp add: distinct_sets_def init_state_def)
  have "distinct_sets (watchers st)" if r: "run (d_step dcfg) (init_state ch so) es = Inr st"
    using d_step_distinct_sets
    by (intro run_invariant[where P = "\<lambda>st. distinct_sets (watchers st)", OF _ i r]) blast
  moreover have "distinct_sets (watchers st)" if r: "run (t_step cfg verify) (init_state ch so) es = Inr st"
    using t_step_distinct_sets
    by (intro run_invariant[where P = "\<lambda>st. distinct_sets (watchers st)", OF _ i r]) blast
  ultimately show ?thesis by (auto intro: distinct_watchers_of)
qed

subsection \<open>The helper functions on examples\<close>

lemma dec_examples: "dec 0 = ''0'' \<and> dec 7 = ''7'' \<and> dec 1234 = ''1234''"
  by code_simp

lemma trim_example:
  "trim '' abc  '' = ''abc'' \<and> trim (''tok'' @ [CHR 0xA0]) = ''tok'' \<and> trim ''a b'' = ''a b''"
  by (simp add: trim_def is_space_def)

lemma bearerOrQueryToken_examples:
  "bearerOrQueryToken ((plain_req ''7'')\<lparr>rq_authorization := Some ''Bearer abc '', rq_query_t := Some ''q''\<rparr>) = Some ''abc''
   \<and> bearerOrQueryToken ((plain_req ''7'')\<lparr>rq_authorization := Some ''Basic abc'', rq_query_t := Some ''q''\<rparr>) = Some ''q''
   \<and> bearerOrQueryToken (plain_req ''7'') = None"
  by (simp add: bearerOrQueryToken_def plain_req_def starts_with_def trim_def is_space_def)

end
